(* ===== verification/Prelude.thy ===== *)
theory Prelude
  imports Main
begin

unbundle bit_operations_syntax

text \<open>
  Shared vocabulary of the development: the named collections of rules that the
  component theories extend, the byte and 32-bit word types of the model (natural
  numbers kept below their width, with the wrap-around written out), splitting of a
  list into fixed-size blocks (Rust's \<open>chunks\<close> on slices), bounds of the bitwise
  operations on \<open>nat\<close>, and the rules that let \<open>simp\<close> evaluate the model on
  literal inputs inside the kernel.
\<close>

named_theorems kernel_eval "rules that let simp evaluate the model on literal inputs"
named_theorems width_bounds "bounds on values kept below a machine width"

type_synonym byte = nat
type_synonym u32 = nat

abbreviation is_byte :: "nat \<Rightarrow> bool" where
  "is_byte b \<equiv> b < 256"

abbreviation bytes_ok :: "nat list \<Rightarrow> bool" where
  "bytes_ok bs \<equiv> list_all is_byte bs"

section \<open>Fixed-size blocks of a list\<close>

fun chunks :: "nat \<Rightarrow> 'a list \<Rightarrow> 'a list list" where
  "chunks n [] = []"
| "chunks n (x # xs) =
     (if n = 0 then [] else take n (x # xs) # chunks n (drop n (x # xs)))"

lemma mod0_le: "0 < n \<Longrightarrow> 0 < m \<Longrightarrow> m mod n = 0 \<Longrightarrow> n \<le> (m::nat)"
  using mod_less[of m n] by (cases "m < n") auto

lemma drop_mod0: "n \<le> length xs \<Longrightarrow> length xs mod n = 0 \<Longrightarrow> length (drop n xs) mod n = 0"
  by (simp add: le_mod_geq)

lemma chunks_Nil [simp]: "chunks n [] = []"
  by simp

lemma chunks_nonempty:
  "xs \<noteq> [] \<Longrightarrow> 0 < n \<Longrightarrow> chunks n xs = take n xs # chunks n (drop n xs)"
  by (cases xs) auto

lemma concat_chunks [simp]: "0 < n \<Longrightarrow> concat (chunks n xs) = xs"
  by (induction n xs rule: chunks.induct) auto

lemma chunks_append:
  assumes "0 < n" and "length xs mod n = 0"
  shows "chunks n (xs @ ys) = chunks n xs @ chunks n ys"
  using assms
proof (induction n xs rule: chunks.induct)
  case (1 n)
  then show ?case by simp
next
  case (2 n x xs)
  then have len: "n \<le> length (x # xs)"
    by (intro mod0_le) auto
  have "length (drop n (x # xs)) mod n = 0"
    using "2.prems" len by (intro drop_mod0)
  then have IH: "chunks n (drop n (x # xs) @ ys) = chunks n (drop n (x # xs)) @ chunks n ys"
    using "2.IH" "2.prems"(1) by simp
  have eq: "chunks n ((x # xs) @ ys) = take n ((x # xs) @ ys) # chunks n (drop n ((x # xs) @ ys))"
    using "2.prems"(1) by (rule chunks_nonempty[rotated]) simp
  have "take n ((x # xs) @ ys) = take n (x # xs)"
    and "drop n ((x # xs) @ ys) = drop n (x # xs) @ ys"
    using len by (simp_all only: take_append drop_append, simp_all)
  with eq IH "2.prems"(1) show ?case
    by (simp del: append_Cons)
qed

lemma chunks_map: "chunks n (map f xs) = map (map f) (chunks n xs)"
proof (induction n xs rule: chunks.induct)
  case (2 n x xs)
  show ?case
  proof (cases "n = 0")
    case False
    have "chunks n (map f (x # xs)) = take n (map f (x # xs)) # chunks n (drop n (map f (x # xs)))"
      using False by (intro chunks_nonempty) simp_all
    also have "\<dots> = map f (take n (x # xs)) # chunks n (map f (drop n (x # xs)))"
      by (simp only: take_map drop_map)
    finally show ?thesis using 2 False by simp
  qed simp
qed simp

lemma length_chunks:
  "0 < n \<Longrightarrow> length xs mod n = 0 \<Longrightarrow> length (chunks n xs) = length xs div n"
proof (induction n xs rule: chunks.induct)
  case (2 n x xs)
  have le: "n \<le> length (x # xs)" using 2 by (intro mod0_le) simp_all
  have d: "length (drop n (x # xs)) mod n = 0" using drop_mod0[OF le "2.prems"(2)] .
  have "length (chunks n (drop n (x # xs))) = length (drop n (x # xs)) div n"
    using "2.IH" "2.prems"(1) d by blast
  then show ?case using 2 le by (simp add: le_div_geq)
qed simp

lemma chunks_length:
  "0 < n \<Longrightarrow> length xs mod n = 0 \<Longrightarrow> c \<in> set (chunks n xs) \<Longrightarrow> length c = n"
proof (induction n xs rule: chunks.induct)
  case (1 n)
  then show ?case by simp
next
  case (2 n x xs)
  then have len: "n \<le> length (x # xs)"
    by (intro mod0_le) auto
  have "length (drop n (x # xs)) mod n = 0"
    using "2.prems" len by (intro drop_mod0)
  with 2 len show ?case by (auto split: if_splits)
qed

section \<open>Bit widths of natural numbers\<close>

lemma below_pow2_take_bit: "(x::nat) < 2 ^ n \<longleftrightarrow> take_bit n x = x"
  by (simp add: take_bit_nat_eq_self_iff)

lemma xor_below_pow2 [width_bounds]:
  "(a::nat) < 2 ^ n \<Longrightarrow> b < 2 ^ n \<Longrightarrow> a XOR b < 2 ^ n"
  by (simp add: below_pow2_take_bit)

lemma and_below_pow2 [width_bounds]:
  "(a::nat) < 2 ^ n \<Longrightarrow> b < 2 ^ n \<Longrightarrow> a AND b < 2 ^ n"
  by (simp add: below_pow2_take_bit)

lemma or_below_pow2 [width_bounds]:
  "(a::nat) < 2 ^ n \<Longrightarrow> b < 2 ^ n \<Longrightarrow> a OR b < 2 ^ n"
  by (simp add: below_pow2_take_bit)

section \<open>Evaluation of literal inputs\<close>

lemma replicate_numeral_unfold [kernel_eval]:
  "replicate (numeral n) x = x # replicate (pred_numeral n) x"
  by (simp add: numeral_eq_Suc)

lemmas upt_eval [kernel_eval] = upt_rec

end
