(* ===== verification/Base64.thy ===== *)
theory Base64
  imports Prelude
begin

text \<open>
  Base64 as the \<open>base64\<close> crate's \<open>encode\<close> produces it for \<open>convert_key\<close>
  (src/src/lib.rs, line 49): the standard alphabet of RFC 4648 with \<open>=\<close> padding.
  Every three input bytes become four characters; a final group of one or two bytes
  becomes two or three characters and the padding. The decoder is the canonical
  inverse (it rejects characters outside the alphabet, misplaced padding and
  non-zero trailing bits); it is here to state that the token carries the digest.
\<close>

definition b64_alphabet :: string where
  "b64_alphabet = ''ABCDEFGHIJKLMNOPQRSTUVWXYZabcdefghijklmnopqrstuvwxyz0123456789+/''"

definition b64_char :: "nat \<Rightarrow> char" where
  "b64_char i = b64_alphabet ! i"

definition b64_pad :: char where
  "b64_pad = CHR ''=''"

fun b64_encode :: "byte list \<Rightarrow> string" where
  "b64_encode (a # b # c # rest) =
     b64_char (a div 4) # b64_char (a mod 4 * 16 + b div 16) #
     b64_char (b mod 16 * 4 + c div 64) # b64_char (c mod 64) # b64_encode rest"
| "b64_encode [a, b] =
     [b64_char (a div 4), b64_char (a mod 4 * 16 + b div 16), b64_char (b mod 16 * 4), b64_pad]"
| "b64_encode [a] = [b64_char (a div 4), b64_char (a mod 4 * 16), b64_pad, b64_pad]"
| "b64_encode [] = []"

definition b64_value :: "char \<Rightarrow> nat option" where
  "b64_value c =
     (let n = of_char c :: nat in
      if 65 \<le> n \<and> n \<le> 90 then Some (n - 65)
      else if 97 \<le> n \<and> n \<le> 122 then Some (n - 71)
      else if 48 \<le> n \<and> n \<le> 57 then Some (n + 4)
      else if n = 43 then Some 62
      else if n = 47 then Some 63
      else None)"

fun b64_decode :: "string \<Rightarrow> byte list option" where
  "b64_decode [] = Some []"
| "b64_decode (c1 # c2 # c3 # c4 # rest) =
     (case (b64_value c1, b64_value c2) of
        (Some v1, Some v2) \<Rightarrow>
          if c3 = b64_pad \<and> c4 = b64_pad \<and> rest = [] then
            (if v2 mod 16 = 0 then Some [v1 * 4 + v2 div 16] else None)
          else
            (case b64_value c3 of
               None \<Rightarrow> None
             | Some v3 \<Rightarrow>
                 if c4 = b64_pad \<and> rest = [] then
                   (if v3 mod 4 = 0 then Some [v1 * 4 + v2 div 16, v2 mod 16 * 16 + v3 div 4]
                    else None)
                 else
                   (case b64_value c4 of
                      None \<Rightarrow> None
                    | Some v4 \<Rightarrow>
                        map_option
                          ((@) [v1 * 4 + v2 div 16, v2 mod 16 * 16 + v3 div 4, v3 mod 4 * 64 + v4])
                          (b64_decode rest)))
      | _ \<Rightarrow> None)"
| "b64_decode _ = None"

section \<open>Decoding the encoding\<close>

lemma length_b64_alphabet [simp]: "length b64_alphabet = 64"
  by (simp add: b64_alphabet_def)

lemma b64_value_table: "list_all (\<lambda>i. b64_value (b64_char i) = Some i) [0..<64]"
  by (simp add: kernel_eval b64_value_def b64_char_def b64_alphabet_def)

lemma b64_value_char [simp]: "i < 64 \<Longrightarrow> b64_value (b64_char i) = Some i"
  using b64_value_table by (simp add: list_all_iff)

lemma b64_value_pad [simp]: "b64_value b64_pad = None"
  by (simp add: b64_value_def b64_pad_def)

lemma b64_char_not_pad [simp]: "i < 64 \<Longrightarrow> b64_char i \<noteq> b64_pad"
  by (metis b64_value_char b64_value_pad option.distinct(1))

lemma b64_char_in_alphabet: "i < 64 \<Longrightarrow> b64_char i \<in> set b64_alphabet"
  by (simp add: b64_char_def)

lemma length_b64_encode: "length (b64_encode bs) = 4 * ((length bs + 2) div 3)"
proof (induction bs rule: b64_encode.induct)
  case (1 a b c rest)
  have "(length rest + 5) div 3 = (length rest + 2) div 3 + 1" by presburger
  with 1 show ?case by simp presburger
qed simp_all

lemma b64_roundtrip: "bytes_ok bs \<Longrightarrow> b64_decode (b64_encode bs) = Some bs"
proof (induction bs rule: b64_encode.induct)
  case (1 a b c rest)
  have v: "a div 4 < 64" "a mod 4 * 16 + b div 16 < 64" "b mod 16 * 4 + c div 64 < 64" "c mod 64 < 64"
    using "1.prems" by auto
  have e: "a div 4 * 4 + (a mod 4 * 16 + b div 16) div 16 = a"
    "(a mod 4 * 16 + b div 16) mod 16 * 16 + (b mod 16 * 4 + c div 64) div 4 = b"
    "(b mod 16 * 4 + c div 64) mod 4 * 64 + c mod 64 = c"
    using "1.prems" by auto
  show ?case
    using "1.IH" "1.prems" e
    by (simp add: b64_value_char[OF v(1)] b64_value_char[OF v(2)] b64_value_char[OF v(3)]
        b64_value_char[OF v(4)] b64_char_not_pad[OF v(3)] b64_char_not_pad[OF v(4)])
next
  case (2 a b)
  have v: "a div 4 < 64" "a mod 4 * 16 + b div 16 < 64" "b mod 16 * 4 < 64"
    using "2.prems" by auto
  have e: "b div 16 div 16 = 0" "b div 16 mod 16 * 16 + b mod 16 = b"
    using "2.prems" by auto
  show ?case
    using "2.prems" e
    by (simp add: b64_value_char[OF v(1)] b64_value_char[OF v(2)] b64_value_char[OF v(3)]
        b64_char_not_pad[OF v(3)])
next
  case (3 a)
  have v: "a div 4 < 64" "a mod 4 * 16 < 64"
    using "3.prems" by auto
  show ?case
    using "3.prems" by (simp add: b64_value_char[OF v(1)] b64_value_char[OF v(2)])
qed simp
section \<open>Encoding the decoding\<close>

lemma of_char_sub_inj:
  "(of_char a :: nat) - k = of_char b - k \<Longrightarrow> k \<le> of_char a \<Longrightarrow> k \<le> of_char b \<Longrightarrow> a = b"
proof -
  assume "(of_char a :: nat) - k = of_char b - k" "k \<le> of_char a" "k \<le> of_char b"
  then have "(of_char a :: nat) = of_char b" by arith
  then show "a = b" by (metis char_of_char)
qed

lemma b64_value_Some: "b64_value c = Some v \<Longrightarrow> v < 64 \<and> b64_char v = c"
proof -
  assume v: "b64_value c = Some v"
  then have lt: "v < 64" by (auto simp: b64_value_def Let_def split: if_splits)
  have "b64_value (b64_char v) = Some v" using lt by simp
  with v have "b64_char v = c"
    by (auto simp: b64_value_def Let_def split: if_splits
        intro: of_char_sub_inj of_char_sub_inj[where k = 0, simplified])
  then show ?thesis using lt by simp
qed

lemma b64_digits:
  "v2 < 64 \<Longrightarrow> (v1 * 4 + v2 div 16) div 4 = v1"
  "(v1 * 4 + v2 div 16) mod 4 = v2 div 16 mod 4"
  "v3 < 64 \<Longrightarrow> (v2 mod 16 * 16 + v3 div 4) div 16 = v2 mod 16"
  "v3 < 64 \<Longrightarrow> (v2 mod 16 * 16 + v3 div 4) mod 16 = v3 div 4"
  "v4 < 64 \<Longrightarrow> (v3 mod 4 * 64 + v4) div 64 = v3 mod 4"
  "v4 < 64 \<Longrightarrow> (v3 mod 4 * 64 + v4) mod 64 = v4"
  for v1 v2 v3 v4 :: nat
  by simp_all

lemma b64_decode_canonical: "b64_decode s = Some bs \<Longrightarrow> b64_encode bs = s"
proof (induction s arbitrary: bs rule: b64_decode.induct)
  case (2 c1 c2 c3 c4 rest)
  obtain v1 v2 where v1: "b64_value c1 = Some v1" and v2: "b64_value c2 = Some v2"
    using "2.prems" by (auto split: option.splits)
  have w1: "v1 < 64" "b64_char v1 = c1" and w2: "v2 < 64" "b64_char v2 = c2"
    using b64_value_Some[OF v1] b64_value_Some[OF v2] by auto
  have m2: "v2 div 16 mod 4 = v2 div 16" using w2 by simp
  show ?case
  proof (cases "c3 = b64_pad \<and> c4 = b64_pad \<and> rest = []")
    case True
    then show ?thesis using "2.prems" v1 v2 w1 w2 m2
      by (auto simp: b64_digits split: if_splits)
  next
    case np: False
    obtain v3 where v3: "b64_value c3 = Some v3"
      using "2.prems" v1 v2 np by (auto split: option.splits)
    have w3: "v3 < 64" "b64_char v3 = c3" using b64_value_Some[OF v3] by auto
    show ?thesis
    proof (cases "c4 = b64_pad \<and> rest = []")
      case True
      then show ?thesis using "2.prems" v1 v2 v3 w1 w2 w3 m2 np
        by (auto simp: b64_digits split: if_splits)
    next
      case False
      obtain v4 where v4: "b64_value c4 = Some v4"
        using "2.prems" v1 v2 v3 np False by (auto split: option.splits)
      have w4: "v4 < 64" "b64_char v4 = c4" using b64_value_Some[OF v4] by auto
      obtain bs' where r: "b64_decode rest = Some bs'"
        and bs: "bs = [v1 * 4 + v2 div 16, v2 mod 16 * 16 + v3 div 4, v3 mod 4 * 64 + v4] @ bs'"
        using "2.prems" v1 v2 v3 v4 np False by (auto split: option.splits)
      have "b64_encode bs' = rest"
        using "2.IH"[OF refl v1 v2 np v3 False v4 r] .
      then show ?thesis using bs w1 w2 w3 w4 m2 by (simp add: b64_digits)
    qed
  qed
qed simp_all

lemma b64_encode_tail_pad:
  "bytes_ok bs \<Longrightarrow> length bs mod 3 = 2 \<Longrightarrow>
   \<exists>tok. b64_encode bs = tok @ [b64_pad] \<and> length tok = 4 * (length bs div 3) + 3 \<and>
         set tok \<subseteq> set b64_alphabet"
proof (induction bs rule: b64_encode.induct)
  case (1 a b c rest)
  have v: "a div 4 < 64" "a mod 4 * 16 + b div 16 < 64" "b mod 16 * 4 + c div 64 < 64" "c mod 64 < 64"
    using "1.prems"(1) by auto
  obtain tok where t: "b64_encode rest = tok @ [b64_pad]" "length tok = 4 * (length rest div 3) + 3"
    "set tok \<subseteq> set b64_alphabet"
    using "1.IH" "1.prems" by auto
  have d: "(3 + length rest) div 3 = length rest div 3 + 1" by simp
  show ?case
    using t v d b64_char_in_alphabet[OF v(1)] b64_char_in_alphabet[OF v(2)]
      b64_char_in_alphabet[OF v(3)] b64_char_in_alphabet[OF v(4)]
    by (intro exI[of _ "[b64_char (a div 4), b64_char (a mod 4 * 16 + b div 16),
        b64_char (b mod 16 * 4 + c div 64), b64_char (c mod 64)] @ tok"]) simp
next
  case (2 a b)
  have v: "a div 4 < 64" "a mod 4 * 16 + b div 16 < 64" "b mod 16 * 4 < 64"
    using "2.prems"(1) by auto
  show ?case
    using v b64_char_in_alphabet[OF v(1)] b64_char_in_alphabet[OF v(2)] b64_char_in_alphabet[OF v(3)]
    by (intro exI[of _ "[b64_char (a div 4), b64_char (a mod 4 * 16 + b div 16), b64_char (b mod 16 * 4)]"])
      simp
qed simp_all

end
