(* ===== verification/Accept_Key.thy ===== *)
theory Accept_Key
  imports Sha1 Base64
begin

text \<open>
  The accept-key deriver \<open>convert_key\<close> of src/src/lib.rs (lines 41--50): the bytes of
  the \<open>Sec-WebSocket-Key\<close> header are fed to a fresh SHA-1 hasher, followed by the
  GUID of RFC 6455, and the 20-byte digest is base64-encoded. Rust's \<open>&str\<close> is UTF-8,
  and an Isabelle \<open>char\<close> is one byte of it, so \<open>as_bytes\<close> reads each character
  as its code.
\<close>

definition ws_guid :: string where
  "ws_guid = ''258EAFA5-E914-47DA-95CA-C5AB0DC85B11''"

definition as_bytes :: "string \<Rightarrow> byte list" where
  "as_bytes s = map of_char s"

definition convert_key :: "byte list \<Rightarrow> string" where
  "convert_key input =
     (let sha = sha1_default;
          sha = sha1_update sha input;
          sha = sha1_update sha (as_bytes ws_guid)
      in b64_encode (sha1_finalize sha))"

section \<open>The derived token\<close>

text \<open>The hasher of \<open>convert_key\<close> has absorbed the key followed by the GUID.\<close>

lemma convert_key_absorbed:
  "absorbed (input @ as_bytes ws_guid) (sha1_update (sha1_update sha1_default input) (as_bytes ws_guid))"
  using absorbed_update[OF absorbed_update[OF absorbed_default]] by simp

lemma convert_key_eq: "convert_key input = b64_encode (sha1 (input @ as_bytes ws_guid))"
  by (simp add: convert_key_def absorbed_finalize[OF convert_key_absorbed])

text \<open>C1: the streaming code of \<open>convert_key\<close> computes the function that RFC 6455,
  section 1.3, defines: the base64 encoding of the SHA-1 digest of the key followed by
  the GUID.\<close>

theorem convert_key_rfc6455:
  "convert_key input = b64_encode (sha1 (input @ as_bytes ws_guid))"
  by (simp add: convert_key_def absorbed_finalize[OF convert_key_absorbed])

text \<open>C2: the accept token is always 28 characters of base64, and decoding it gives back
  the 20-byte SHA-1 digest of the key and the GUID.\<close>

theorem convert_key_token:
  "length (convert_key input) = 28 \<and>
   b64_decode (convert_key input) = Some (sha1 (input @ as_bytes ws_guid))"
  by (simp add: convert_key_eq length_b64_encode length_sha1 b64_roundtrip sha1_bytes_ok)

text \<open>C19: the value of the \<open>Sec-WebSocket-Accept\<close> header is always 27 characters of the
  base64 alphabet followed by one \<open>=\<close>: a well-formed header token.\<close>

theorem convert_key_header_value:
  "\<exists>tok. convert_key input = tok @ ''='' \<and> length tok = 27 \<and> set tok \<subseteq> set b64_alphabet"
proof -
  have "bytes_ok (sha1 (input @ as_bytes ws_guid))" "length (sha1 (input @ as_bytes ws_guid)) mod 3 = 2"
    by (simp_all add: sha1_bytes_ok length_sha1)
  from b64_encode_tail_pad[OF this] show ?thesis
    by (simp add: convert_key_eq length_sha1 b64_pad_def)
qed

subsection \<open>The example of RFC 6455, section 1.3\<close>

text \<open>
  The key and the GUID are 60 bytes; the padding makes two blocks. Each block's
  compression is evaluated on its own (in about two minutes each), then the hasher's
  state, the digest and its base64 encoding.
\<close>

lemma rfc6455_block1:
  "sha1_compress (1732584193, 4023233417, 2562383102, 271733878, 3285377520)
    [100, 71, 104, 108, 73, 72, 78, 104, 98, 88, 66, 115, 90, 83, 66, 117, 98, 50, 53, 106,
     90, 81, 61, 61, 50, 53, 56, 69, 65, 70, 65, 53, 45, 69, 57, 49, 52, 45, 52, 55, 68, 65,
     45, 57, 53, 67, 65, 45, 67, 53, 65, 66, 48, 68, 67, 56, 53, 66, 49, 49, 128, 0, 0, 0]
   = (1540323111, 1931952490, 3195796473, 1517820024, 1581688034)"
  by (simp add: kernel_eval sha1_compress_def sha1_schedule_def sha1_f_def sha1_k_def
      add32_def rotl32_def not32_def be_word_def)

lemma rfc6455_block2:
  "sha1_compress (1540323111, 1931952490, 3195796473, 1517820024, 1581688034)
    [0, 0, 0, 0, 0, 0, 0, 0, 0, 0, 0, 0, 0, 0, 0, 0, 0, 0, 0, 0, 0, 0, 0, 0, 0, 0, 0, 0, 0, 0,
     0, 0, 0, 0, 0, 0, 0, 0, 0, 0, 0, 0, 0, 0, 0, 0, 0, 0, 0, 0, 0, 0, 0, 0, 0, 0, 0, 0, 0, 0,
     0, 0, Suc 0, 224]
   = (3011137324, 3227668246, 2432058886, 3476576581, 2998846698)"
  by (simp add: kernel_eval sha1_compress_def sha1_schedule_def sha1_f_def sha1_k_def
      add32_def rotl32_def not32_def be_word_def)

lemmas hasher_eval = kernel_eval as_bytes_def ws_guid_def sha1_default_def sha1_update_def
  sha1_finalize_def sha1_padding_def len_be_bytes_def sha1_iv_def

text \<open>C3: on the key of the RFC's example the code derives the RFC's accept token.\<close>

theorem convert_key_rfc6455_example:
  "convert_key (as_bytes ''dGhlIHNhbXBsZSBub25jZQ=='') = ''s3pPLMBiTxaQ9kYGzzhZRbK+xOo=''"
proof -
  have "sha1_update (sha1_update sha1_default (as_bytes ''dGhlIHNhbXBsZSBub25jZQ==''))
          (as_bytes ws_guid) =
    \<lparr>state = (1732584193, 4023233417, 2562383102, 271733878, 3285377520), block_count = 0,
     buffer = [100, 71, 104, 108, 73, 72, 78, 104, 98, 88, 66, 115, 90, 83, 66, 117, 98, 50,
       53, 106, 90, 81, 61, 61, 50, 53, 56, 69, 65, 70, 65, 53, 45, 69, 57, 49, 52, 45, 52, 55,
       68, 65, 45, 57, 53, 67, 65, 45, 67, 53, 65, 66, 48, 68, 67, 56, 53, 66, 49, 49]\<rparr>"
    by (simp add: hasher_eval)
  then have "sha1_finalize (sha1_update (sha1_update sha1_default
      (as_bytes ''dGhlIHNhbXBsZSBub25jZQ=='')) (as_bytes ws_guid))
     = sha1_digest_bytes (3011137324, 3227668246, 2432058886, 3476576581, 2998846698)"
    by (simp add: hasher_eval rfc6455_block1 rfc6455_block2)
  then show ?thesis
    by (simp add: convert_key_def sha1_digest_bytes_def word_be_bytes_def b64_char_def
        b64_alphabet_def b64_pad_def)
qed

end
