(* ===== verification/Http.thy ===== *)
theory Http
  imports Prelude
begin

text \<open>
  The part of the Rocket HTTP server that \<open>respond_to\<close> (src/src/lib.rs, lines 20--37)
  calls: the header map of a request or response, the status, and the response
  builder with its deferred upgrade handler. Rocket is a library the repository only
  calls, so these definitions follow its documented behaviour:
  \<^item> a \<open>HeaderMap\<close> maps case-insensitive names (Rocket's \<open>Uncased\<close>) to the list of
    the values given for that name, in insertion order; \<open>get_one\<close> returns the first
    value of a name; \<open>Response::set_header\<close> (used by the builder's \<open>header\<close>)
    replaces every value of the name in place, or appends the name;
  \<^item> \<open>Response::build()\<close> starts from status 200, no header and no body; the builder's
    \<open>status\<close>, \<open>header\<close>, \<open>sized_body\<close> and \<open>upgrade\<close> set one part each, and
    \<open>finalize\<close> returns the response. The upgrade handler is a type parameter, the
    boxed \<open>UpgradeResponder\<close> the host invokes after it has sent the response.
\<close>

section \<open>Case-insensitive header names\<close>

definition ascii_lower :: "char \<Rightarrow> char" where
  "ascii_lower c =
     (let n = of_char c :: nat in if 65 \<le> n \<and> n \<le> 90 then char_of (n + 32) else c)"

definition uncased_eq :: "string \<Rightarrow> string \<Rightarrow> bool" where
  "uncased_eq a b \<longleftrightarrow> map ascii_lower a = map ascii_lower b"

type_synonym header_map = "(string \<times> string list) list"

definition get_one :: "header_map \<Rightarrow> string \<Rightarrow> string option" where
  "get_one hs name =
     (case find (\<lambda>(n, vs). uncased_eq n name) hs of
        None \<Rightarrow> None
      | Some (n, vs) \<Rightarrow> (case vs of [] \<Rightarrow> None | v # _ \<Rightarrow> Some v))"

fun add_header :: "header_map \<Rightarrow> string \<Rightarrow> string \<Rightarrow> header_map" where
  "add_header [] name v = [(name, [v])]"
| "add_header ((n, vs) # hs) name v =
     (if uncased_eq n name then (n, vs @ [v]) # hs else (n, vs) # add_header hs name v)"

fun replace_header :: "header_map \<Rightarrow> string \<Rightarrow> string \<Rightarrow> header_map" where
  "replace_header [] name v = [(name, [v])]"
| "replace_header ((n, vs) # hs) name v =
     (if uncased_eq n name then (name, [v]) # hs else (n, vs) # replace_header hs name v)"

section \<open>Status, request and response\<close>

datatype status = Ok | SwitchingProtocols | BadRequest

fun status_code :: "status \<Rightarrow> nat" where
  "status_code Ok = 200"
| "status_code SwitchingProtocols = 101"
| "status_code BadRequest = 400"

record request =
  req_headers :: header_map

record 'h response =
  resp_status :: status
  resp_headers :: header_map
  resp_body :: "string option"
  resp_upgrade :: "'h option"

definition response_build :: "'h response" where
  "response_build = \<lparr>resp_status = Ok, resp_headers = [], resp_body = None, resp_upgrade = None\<rparr>"

definition set_status :: "'h response \<Rightarrow> status \<Rightarrow> 'h response" where
  "set_status r s = r\<lparr>resp_status := s\<rparr>"

definition set_header :: "'h response \<Rightarrow> string \<Rightarrow> string \<Rightarrow> 'h response" where
  "set_header r name v = r\<lparr>resp_headers := replace_header (resp_headers r) name v\<rparr>"

definition sized_body :: "'h response \<Rightarrow> string \<Rightarrow> 'h response" where
  "sized_body r b = r\<lparr>resp_body := Some b\<rparr>"

definition set_upgrade :: "'h response \<Rightarrow> 'h \<Rightarrow> 'h response" where
  "set_upgrade r h = r\<lparr>resp_upgrade := Some h\<rparr>"

definition values_nonempty :: "header_map \<Rightarrow> bool" where
  "values_nonempty hs \<longleftrightarrow> list_all (\<lambda>(n, vs). vs \<noteq> []) hs"

definition request_of :: "(string \<times> string) list \<Rightarrow> request" where
  "request_of hs = \<lparr>req_headers = foldl (\<lambda>m (n, v). add_header m n v) [] hs\<rparr>"

section \<open>Lookup\<close>

lemma uncased_eq_refl [simp]: "uncased_eq a a"
  by (simp add: uncased_eq_def)

lemma uncased_eq_sym: "uncased_eq a b \<Longrightarrow> uncased_eq b a"
  by (simp add: uncased_eq_def)

lemma uncased_eq_trans: "uncased_eq a b \<Longrightarrow> uncased_eq b c \<Longrightarrow> uncased_eq a c"
  by (simp add: uncased_eq_def)

lemma get_one_Nil [simp]: "get_one [] name = None"
  by (simp add: get_one_def)

lemma get_one_Cons:
  "get_one ((n, vs) # hs) name =
     (if uncased_eq n name then (case vs of [] \<Rightarrow> None | v # _ \<Rightarrow> Some v) else get_one hs name)"
  by (simp add: get_one_def)

lemma get_one_uncased:
  "uncased_eq a b \<Longrightarrow> get_one hs a = get_one hs b"
proof (induction hs)
  case (Cons h hs)
  then show ?case
    by (cases h) (auto simp: get_one_Cons dest: uncased_eq_sym uncased_eq_trans)
qed simp

lemma add_header_nonempty:
  "values_nonempty hs \<Longrightarrow> values_nonempty (add_header hs n v)"
  by (induction hs n v rule: add_header.induct) (auto simp: values_nonempty_def)

lemma get_one_add_header:
  "values_nonempty hs \<Longrightarrow>
   get_one (add_header hs n v) name =
     (case get_one hs name of Some w \<Rightarrow> Some w | None \<Rightarrow> if uncased_eq n name then Some v else None)"
proof (induction hs n v rule: add_header.induct)
  case (1 name' v)
  then show ?case by (simp add: get_one_Cons)
next
  case (2 n vs hs name' v)
  then show ?case
    by (auto simp: get_one_Cons values_nonempty_def neq_Nil_conv
        dest: uncased_eq_sym uncased_eq_trans split: option.splits)
qed

lemma get_one_foldl_add:
  "values_nonempty m \<Longrightarrow>
   get_one (foldl (\<lambda>m (n, v). add_header m n v) m hs) name =
     (case get_one m name of Some w \<Rightarrow> Some w
      | None \<Rightarrow> map_option snd (find (\<lambda>(n, v). uncased_eq n name) hs))"
proof (induction hs arbitrary: m)
  case (Cons h hs)
  obtain n v where h: "h = (n, v)" by fastforce
  have "values_nonempty (add_header m n v)"
    using Cons.prems by (rule add_header_nonempty)
  with Cons.IH[of "add_header m n v"] Cons.prems show ?case
    by (simp add: h get_one_add_header split: option.splits)
qed (simp split: option.splits)

lemma get_one_request_of:
  "get_one (req_headers (request_of hs)) name = map_option snd (find (\<lambda>(n, v). uncased_eq n name) hs)"
  by (simp add: request_of_def get_one_foldl_add values_nonempty_def)

end
