(* ===== verification/Oneshot.thy ===== *)
theory Oneshot
  imports Prelude
begin

text \<open>
  The one-shot channel \<open>tokio::sync::oneshot\<close> that carries the WebSocket stream from
  the upgrade callback to the code that created the responder (src/src/lib.rs, lines
  15, 56, 66 and 74). Tokio is a library the repository only calls; the model follows
  its documented semantics:
  \<^item> \<open>channel()\<close> returns a sender and a receiver sharing one slot;
  \<^item> \<open>Sender::send(self, t)\<close> consumes the sender: if the receiver has been dropped
    it returns \<open>Err(t)\<close>, otherwise it stores \<open>t\<close> and completes the channel;
  \<^item> dropping the sender without sending completes the channel with no value;
  \<^item> polling the receiver is \<open>Pending\<close> until the channel is complete, then
    \<open>Ready(Ok(t))\<close> if a value was stored and \<open>Ready(Err(RecvError))\<close> if not; a
    receiver that has returned \<open>Ready\<close> panics when polled again;
  \<^item> dropping the receiver closes the channel.
  Rust's ownership lets each handle be used only while it exists; the flags
  \<open>tx_alive\<close> and \<open>rx_alive\<close> record that, and an operation on a handle that no longer
  exists is \<open>NoHandle\<close>, a step the Rust program cannot take.
\<close>

record 'a oneshot =
  slot :: "'a option"
  complete :: bool
  closed :: bool
  tx_alive :: bool
  rx_alive :: bool
  rx_done :: bool

datatype recv_error = RecvError

datatype 'a poll = Pending | Ready 'a

definition oneshot_channel :: "'a oneshot" where
  "oneshot_channel =
     \<lparr>slot = None, complete = False, closed = False,
      tx_alive = True, rx_alive = True, rx_done = False\<rparr>"

definition oneshot_send :: "'a \<Rightarrow> 'a oneshot \<Rightarrow> ('a + unit) \<times> 'a oneshot" where
  "oneshot_send t ch =
     (if closed ch then (Inl t, ch\<lparr>complete := True, tx_alive := False\<rparr>)
      else (Inr (), ch\<lparr>slot := Some t, complete := True, tx_alive := False\<rparr>))"

definition oneshot_drop_tx :: "'a oneshot \<Rightarrow> 'a oneshot" where
  "oneshot_drop_tx ch = ch\<lparr>complete := True, tx_alive := False\<rparr>"

definition oneshot_poll :: "'a oneshot \<Rightarrow> (recv_error + 'a) poll \<times> 'a oneshot" where
  "oneshot_poll ch =
     (if \<not> complete ch then (Pending, ch)
      else (case slot ch of
              Some t \<Rightarrow> (Ready (Inr t), ch\<lparr>slot := None, rx_done := True\<rparr>)
            | None \<Rightarrow> (Ready (Inl RecvError), ch\<lparr>rx_done := True\<rparr>)))"

definition oneshot_drop_rx :: "'a oneshot \<Rightarrow> 'a oneshot" where
  "oneshot_drop_rx ch = ch\<lparr>slot := None, closed := True, rx_alive := False\<rparr>"

end
