(* ===== verification/Responder.thy ===== *)
theory Responder
  imports Accept_Key Http Oneshot
begin

text \<open>
  The responder of src/src/lib.rs: the struct \<open>RocketWebsocket\<close> (lines 14--17), its
  \<open>Responder::respond_to\<close> (lines 20--37), its \<open>UpgradeResponder::on_upgrade\<close>
  (lines 54--57) and the constructors \<open>new\<close> and \<open>with_config\<close> (lines 65--79).

  Every responder owns the sender of its own one-shot channel. The channels live in a
  store indexed by channel number, and a \<open>Sender c\<close> or \<open>Receiver c\<close> names the
  channel it belongs to; the store is the runtime's heap of channels, so that several
  upgrades can be in flight and an operation on one channel leaves the others alone.
  A Rust value that is dropped runs its destructor: when \<open>respond_to\<close> returns an
  error, \<open>self\<close> is dropped and with it the sender, which completes the channel with
  no value. The model does this explicitly.

  tungstenite's \<open>WebSocketStream::from_raw_socket\<close> (a library the code only calls)
  wraps the raw connection without reading it; the model keeps what it is given: the
  connection, the role and the configuration.
\<close>

section \<open>The stream constructor of tungstenite\<close>

datatype role = Server | Client

record ws_config =
  max_send_queue :: "nat option"
  max_message_size :: "nat option"
  max_frame_size :: "nat option"
  accept_unmasked_frames :: bool

datatype 'io ws_stream = WebSocketStream (ws_socket: 'io) (ws_role: role) (ws_cfg: "ws_config option")

definition from_raw_socket :: "'io \<Rightarrow> role \<Rightarrow> ws_config option \<Rightarrow> 'io ws_stream" where
  "from_raw_socket stream r cfg = WebSocketStream stream r cfg"

section \<open>Channels, handles and the responder\<close>

datatype sender = Sender nat
datatype receiver = Receiver nat

record 'io runtime =
  chans :: "nat \<Rightarrow> 'io ws_stream oneshot"
  next_chan :: nat

definition chan_of :: "'io runtime \<Rightarrow> nat \<Rightarrow> 'io ws_stream oneshot" where
  "chan_of rt c = chans rt c"

definition set_chan :: "'io runtime \<Rightarrow> nat \<Rightarrow> 'io ws_stream oneshot \<Rightarrow> 'io runtime" where
  "set_chan rt c ch = rt\<lparr>chans := (chans rt)(c := ch)\<rparr>"

definition update_chan ::
  "'io runtime \<Rightarrow> nat \<Rightarrow> ('io ws_stream oneshot \<Rightarrow> 'io ws_stream oneshot) \<Rightarrow> 'io runtime" where
  "update_chan rt c f = set_chan rt c (f (chan_of rt c))"

definition alloc_channel :: "'io runtime \<Rightarrow> nat \<times> 'io runtime" where
  "alloc_channel rt =
     (next_chan rt, rt\<lparr>chans := (chans rt)(next_chan rt := oneshot_channel), next_chan := Suc (next_chan rt)\<rparr>)"

record rocket_websocket =
  inner :: sender
  config :: "ws_config option"

definition websocket_new :: "'io runtime \<Rightarrow> (rocket_websocket \<times> receiver) \<times> 'io runtime" where
  "websocket_new rt =
     (case alloc_channel rt of (c, rt') \<Rightarrow>
        ((\<lparr>inner = Sender c, config = None\<rparr>, Receiver c), rt'))"

definition websocket_with_config ::
  "ws_config \<Rightarrow> 'io runtime \<Rightarrow> (rocket_websocket \<times> receiver) \<times> 'io runtime" where
  "websocket_with_config cfg rt =
     (case alloc_channel rt of (c, rt') \<Rightarrow>
        ((\<lparr>inner = Sender c, config = Some cfg\<rparr>, Receiver c), rt'))"

definition handler_new :: "ws_config option \<Rightarrow> 'io runtime \<Rightarrow> (rocket_websocket \<times> receiver) \<times> 'io runtime" where
  "handler_new c rt = (case c of None \<Rightarrow> websocket_new rt | Some k \<Rightarrow> websocket_with_config k rt)"

definition drop_sender :: "sender \<Rightarrow> 'io runtime \<Rightarrow> 'io runtime" where
  "drop_sender tx rt = (case tx of Sender c \<Rightarrow> update_chan rt c oneshot_drop_tx)"

definition drop_responder :: "rocket_websocket \<Rightarrow> 'io runtime \<Rightarrow> 'io runtime" where
  "drop_responder self rt = drop_sender (inner self) rt"

section \<open>respond_to: the handshake check and the 101 response\<close>

definition respond_to ::
  "rocket_websocket \<Rightarrow> request \<Rightarrow> 'io runtime \<Rightarrow> (status + rocket_websocket response) \<times> 'io runtime" where
  "respond_to self request rt =
     (case get_one (req_headers request) ''Sec-WebSocket-Key'' of
        None \<Rightarrow> (Inl BadRequest, drop_responder self rt)
      | Some key \<Rightarrow>
          if map_option as_bytes (get_one (req_headers request) ''Sec-WebSocket-Version'')
               \<noteq> Some (as_bytes ''13'')
          then (Inl BadRequest, drop_responder self rt)
          else
            (let response = response_build;
                 response = set_status response SwitchingProtocols;
                 response = set_header response ''connection'' ''upgrade'';
                 response = set_header response ''upgrade'' ''websocket'';
                 response = set_header response ''Sec-WebSocket-Accept'' (convert_key (as_bytes key));
                 response = sized_body response ''Switching protocols to WebSocket'';
                 response = set_upgrade response self
             in (Inr response, rt)))"

section \<open>on_upgrade: the stream through the channel\<close>

datatype io_error_kind = Other

record io_error =
  err_kind :: io_error_kind
  err_msg :: string

definition hung_up :: io_error where
  "hung_up = \<lparr>err_kind = Other, err_msg = ''Upgrade reciever hung up''\<rparr>"

definition on_upgrade ::
  "rocket_websocket \<Rightarrow> 'io \<Rightarrow> 'io runtime \<Rightarrow> (io_error + unit) \<times> 'io runtime" where
  "on_upgrade self upgrade_obj rt =
     (let stream = from_raw_socket upgrade_obj Server (config self)
      in case inner self of Sender c \<Rightarrow>
           (case oneshot_send stream (chan_of rt c) of
              (r, ch') \<Rightarrow> (map_sum (\<lambda>_. hung_up) id r, set_chan rt c ch')))"

definition recv_poll ::
  "receiver \<Rightarrow> 'io runtime \<Rightarrow> (recv_error + 'io ws_stream) poll \<times> 'io runtime" where
  "recv_poll rx rt =
     (case rx of Receiver c \<Rightarrow>
        (case oneshot_poll (chan_of rt c) of (r, ch') \<Rightarrow> (r, set_chan rt c ch')))"

definition drop_receiver :: "receiver \<Rightarrow> 'io runtime \<Rightarrow> 'io runtime" where
  "drop_receiver rx rt = (case rx of Receiver c \<Rightarrow> update_chan rt c oneshot_drop_rx)"

section \<open>The runtime's channel store\<close>

lemma chan_of_set_chan [simp]:
  "chan_of (set_chan rt c ch) c' = (if c' = c then ch else chan_of rt c')"
  by (simp add: chan_of_def set_chan_def)

lemma next_chan_set_chan [simp]: "next_chan (set_chan rt c ch) = next_chan rt"
  by (simp add: set_chan_def)

lemma chan_of_drop_responder:
  "inner h = Sender c \<Longrightarrow>
   chan_of (drop_responder h rt) c' = (if c' = c then oneshot_drop_tx (chan_of rt c) else chan_of rt c')"
  by (simp add: drop_responder_def drop_sender_def update_chan_def)

lemma next_chan_drop_responder [simp]: "next_chan (drop_responder h rt) = next_chan rt"
  by (simp add: drop_responder_def drop_sender_def update_chan_def split: sender.split)

lemma alloc_channel_chan:
  "alloc_channel rt = (c, rt') \<Longrightarrow>
   c = next_chan rt \<and> next_chan rt' = Suc c \<and>
   (\<forall>c'. chan_of rt' c' = (if c' = c then oneshot_channel else chan_of rt c'))"
  by (auto simp: alloc_channel_def chan_of_def)

lemma handler_new_result:
  "handler_new k rt = ((ws, rx), rt') \<Longrightarrow>
   inner ws = Sender (next_chan rt) \<and> config ws = k \<and> rx = Receiver (next_chan rt) \<and>
   next_chan rt' = Suc (next_chan rt) \<and>
   (\<forall>c'. chan_of rt' c' = (if c' = next_chan rt then oneshot_channel else chan_of rt c'))"
  by (cases k) (auto simp: handler_new_def websocket_new_def websocket_with_config_def
      alloc_channel_def chan_of_def)

section \<open>respond_to and on_upgrade, case by case\<close>

lemma as_bytes_eq_iff [simp]: "as_bytes a = as_bytes b \<longleftrightarrow> a = b"
  by (simp add: as_bytes_def inj_map_eq_map inj_on_def)

lemma version_check_iff:
  "map_option as_bytes v \<noteq> Some (as_bytes ''13'') \<longleftrightarrow> v \<noteq> Some ''13''"
  by (cases v) auto

lemma upgrade_headers:
  "replace_header (replace_header (replace_header [] ''connection'' ''upgrade'') ''upgrade'' ''websocket'')
     ''Sec-WebSocket-Accept'' tok =
   [(''connection'', [''upgrade'']), (''upgrade'', [''websocket'']), (''Sec-WebSocket-Accept'', [tok])]"
  by (simp add: uncased_eq_def ascii_lower_def)

text \<open>C10: a request without a \<open>Sec-WebSocket-Key\<close> header is answered with 400 Bad Request, and the responder, with the sender of its channel, is dropped.\<close>

theorem respond_to_no_key:
  "get_one (req_headers request) ''Sec-WebSocket-Key'' = None \<Longrightarrow>
   respond_to self request rt = (Inl BadRequest, drop_responder self rt)"
  by (simp add: respond_to_def)

text \<open>C11: a request whose \<open>Sec-WebSocket-Version\<close> header is not exactly \<open>13\<close> is answered with 400 Bad Request and the responder is dropped; this includes a request with no version header at all.\<close>

theorem respond_to_bad_version:
  "get_one (req_headers request) ''Sec-WebSocket-Version'' \<noteq> Some ''13'' \<Longrightarrow>
   respond_to self request rt = (Inl BadRequest, drop_responder self rt)"
  by (simp add: respond_to_def version_check_iff split: option.split)

text \<open>C12: a request with a key and version \<open>13\<close> gets the 101 response: the headers \<open>connection: upgrade\<close>, \<open>upgrade: websocket\<close> and \<open>Sec-WebSocket-Accept\<close> with the token of the key, in this order, the informational body, and the responder itself as the upgrade handler; the channels are untouched.\<close>

theorem respond_to_accept:
  "get_one (req_headers request) ''Sec-WebSocket-Key'' = Some key \<Longrightarrow>
   get_one (req_headers request) ''Sec-WebSocket-Version'' = Some ''13'' \<Longrightarrow>
   respond_to self request rt =
     (Inr \<lparr>resp_status = SwitchingProtocols,
           resp_headers = [(''connection'', [''upgrade'']), (''upgrade'', [''websocket'']),
                           (''Sec-WebSocket-Accept'', [convert_key (as_bytes key)])],
           resp_body = Some ''Switching protocols to WebSocket'',
           resp_upgrade = Some self\<rparr>, rt)"
  by (simp add: respond_to_def response_build_def set_status_def set_header_def sized_body_def
      set_upgrade_def uncased_eq_def ascii_lower_def)

text \<open>C13: when the receiver is still there, \<open>on_upgrade\<close> wraps the raw connection in a server-role stream with the responder's configuration, stores it in its own channel, consumes the sender and returns \<open>Ok(())\<close>.\<close>

theorem on_upgrade_send:
  "inner self = Sender c \<Longrightarrow> \<not> closed (chan_of rt c) \<Longrightarrow>
   on_upgrade self conn rt =
     (Inr (), set_chan rt c ((chan_of rt c)\<lparr>slot := Some (WebSocketStream conn Server (config self)),
                                           complete := True, tx_alive := False\<rparr>))"
  by (simp add: on_upgrade_def oneshot_send_def from_raw_socket_def)

text \<open>C14: when the receiver has been dropped, \<open>on_upgrade\<close> does not panic: it returns the I/O error of kind \<open>Other\<close> with the message \<open>Upgrade reciever hung up\<close>, and the channel receives no value.\<close>

theorem on_upgrade_hung_up:
  "inner self = Sender c \<Longrightarrow> closed (chan_of rt c) \<Longrightarrow>
   on_upgrade self conn rt =
     (Inl hung_up, set_chan rt c ((chan_of rt c)\<lparr>complete := True, tx_alive := False\<rparr>))"
  by (simp add: on_upgrade_def oneshot_send_def)

text \<open>Each outcome of \<open>respond_to\<close>, and what it leaves in the runtime.\<close>

lemma respond_to_outcome:
  "respond_to ws req rt = (r, rt') \<Longrightarrow>
   (r = Inl BadRequest \<and> rt' = drop_responder ws rt) \<or>
   (\<exists>resp. r = Inr resp \<and> rt' = rt \<and> resp_upgrade resp = Some ws \<and>
      resp_status resp = SwitchingProtocols)"
  by (auto simp: respond_to_def response_build_def set_status_def set_header_def sized_body_def
      set_upgrade_def Let_def split: option.splits if_splits)

text \<open>C20: a request that carries the \<open>Sec-WebSocket-Key\<close> header more than once is not
  rejected: Rocket's \<open>get_one\<close> returns the first value, and the 101 response carries the
  token of that first key.\<close>

theorem respond_to_duplicate_key:
  assumes "find (\<lambda>(n, v). uncased_eq n ''Sec-WebSocket-Key'') hs = Some (n, k1)"
    and "get_one (req_headers (request_of hs)) ''Sec-WebSocket-Version'' = Some ''13''"
  shows "\<exists>resp. respond_to self (request_of hs) rt = (Inr resp, rt) \<and>
           resp_status resp = SwitchingProtocols \<and>
           get_one (resp_headers resp) ''Sec-WebSocket-Accept'' = Some (convert_key (as_bytes k1))"
proof -
  have k: "get_one (req_headers (request_of hs)) ''Sec-WebSocket-Key'' = Some k1"
    using assms(1) by (simp add: get_one_request_of)
  show ?thesis
    using k assms(2)
    by (simp add: respond_to_def response_build_def set_status_def set_header_def sized_body_def
        set_upgrade_def get_one_def uncased_eq_def ascii_lower_def)
qed

end
