(* ===== verification/Upgrade.thy ===== *)
theory Upgrade
  imports Responder
begin

text \<open>
  The whole upgrade as the program runs it: the route handler, Rocket (the host), the
  deferred callback and the task that awaits the receiver, for any number of requests
  at once. One event is one step of one of them on one session; a session is named by
  the number of its channel. Which event comes next is up to the scheduler and the
  network, so the system is the set of states reachable by any sequence of enabled
  events.
  \<^item> \<open>Handle cfg\<close>: the route handler calls \<open>RocketWebsocket::new()\<close> (\<open>cfg = None\<close>)
    or \<open>with_config\<close> and hands the responder to Rocket (echo.rs, lines 14 and 25);
  \<^item> \<open>Respond c req\<close>: Rocket calls \<open>respond_to\<close> on the session's responder; an error
    becomes the status Rocket writes, the responder having been dropped;
  \<^item> \<open>Transmit c\<close>: Rocket writes the 101 response and takes its upgrade handler;
  \<^item> \<open>Upgrade c conn\<close>: Rocket's upgrade task calls \<open>on_upgrade\<close> with the raw
    connection, once, and keeps the \<open>io::Result\<close> it returns;
  \<^item> \<open>HostDrop c\<close>: Rocket drops the responder or the response without calling the
    handler (a client that went away);
  \<^item> \<open>Poll c\<close>: the awaiting task polls its receiver (\<open>rx.await\<close>, echo.rs line 17);
  \<^item> \<open>DropRx c\<close>: the task, or its owner, drops the receiver.
\<close>

datatype 'io phase =
    Created rocket_websocket
  | Rejected status
  | Responded "rocket_websocket response"
  | Transmitted rocket_websocket
  | Upgraded 'io "io_error + unit"
  | Abandoned

datatype 'io event =
    Handle "ws_config option"
  | Respond nat request
  | Transmit nat
  | Upgrade nat 'io
  | HostDrop nat
  | Poll nat
  | DropRx nat

record 'io sys =
  rt :: "'io runtime"
  cfg :: "nat \<Rightarrow> ws_config option"
  phase :: "nat \<Rightarrow> 'io phase option"
  wire :: "nat \<Rightarrow> status list"
  received :: "nat \<Rightarrow> (recv_error + 'io ws_stream) list"

definition sys_init :: "'io sys" where
  "sys_init =
     \<lparr>rt = \<lparr>chans = (\<lambda>_. oneshot_channel), next_chan = 0\<rparr>, cfg = (\<lambda>_. None),
      phase = (\<lambda>_. None), wire = (\<lambda>_. []), received = (\<lambda>_. [])\<rparr>"

definition rx_waiting :: "'io sys \<Rightarrow> nat \<Rightarrow> bool" where
  "rx_waiting s c \<longleftrightarrow>
     c < next_chan (rt s) \<and> rx_alive (chan_of (rt s) c) \<and> \<not> rx_done (chan_of (rt s) c)"

fun sys_step :: "'io sys \<Rightarrow> 'io event \<Rightarrow> 'io sys option" where
  "sys_step s (Handle k) =
     (case handler_new k (rt s) of ((ws, rx), rt') \<Rightarrow>
        Some (s\<lparr>rt := rt', cfg := (cfg s)(next_chan (rt s) := k),
                phase := (phase s)(next_chan (rt s) := Some (Created ws))\<rparr>))"
| "sys_step s (Respond c req) =
     (case phase s c of
        Some (Created ws) \<Rightarrow>
          (case respond_to ws req (rt s) of
             (Inl st, rt') \<Rightarrow>
               Some (s\<lparr>rt := rt', phase := (phase s)(c := Some (Rejected st)),
                       wire := (wire s)(c := wire s c @ [st])\<rparr>)
           | (Inr resp, rt') \<Rightarrow> Some (s\<lparr>rt := rt', phase := (phase s)(c := Some (Responded resp))\<rparr>))
      | _ \<Rightarrow> None)"
| "sys_step s (Transmit c) =
     (case phase s c of
        Some (Responded resp) \<Rightarrow>
          (case resp_upgrade resp of
             Some h \<Rightarrow>
               Some (s\<lparr>phase := (phase s)(c := Some (Transmitted h)),
                       wire := (wire s)(c := wire s c @ [resp_status resp])\<rparr>)
           | None \<Rightarrow> None)
      | _ \<Rightarrow> None)"
| "sys_step s (Upgrade c conn) =
     (case phase s c of
        Some (Transmitted h) \<Rightarrow>
          (case on_upgrade h conn (rt s) of
             (r, rt') \<Rightarrow> Some (s\<lparr>rt := rt', phase := (phase s)(c := Some (Upgraded conn r))\<rparr>))
      | _ \<Rightarrow> None)"
| "sys_step s (HostDrop c) =
     (case phase s c of
        Some (Created ws) \<Rightarrow>
          Some (s\<lparr>rt := drop_responder ws (rt s), phase := (phase s)(c := Some Abandoned)\<rparr>)
      | Some (Responded resp) \<Rightarrow>
          (case resp_upgrade resp of
             Some h \<Rightarrow> Some (s\<lparr>rt := drop_responder h (rt s), phase := (phase s)(c := Some Abandoned)\<rparr>)
           | None \<Rightarrow> None)
      | Some (Transmitted h) \<Rightarrow>
          Some (s\<lparr>rt := drop_responder h (rt s), phase := (phase s)(c := Some Abandoned)\<rparr>)
      | _ \<Rightarrow> None)"
| "sys_step s (Poll c) =
     (if rx_waiting s c then
        (case recv_poll (Receiver c) (rt s) of
           (Pending, rt') \<Rightarrow> Some (s\<lparr>rt := rt'\<rparr>)
         | (Ready r, rt') \<Rightarrow> Some (s\<lparr>rt := rt', received := (received s)(c := received s c @ [r])\<rparr>))
      else None)"
| "sys_step s (DropRx c) =
     (if c < next_chan (rt s) \<and> rx_alive (chan_of (rt s) c)
      then Some (s\<lparr>rt := drop_receiver (Receiver c) (rt s)\<rparr>) else None)"

inductive reachable :: "'io sys \<Rightarrow> bool" where
  init: "reachable sys_init"
| step: "reachable s \<Longrightarrow> sys_step s e = Some s' \<Longrightarrow> reachable s'"

fun sys_run :: "'io sys \<Rightarrow> 'io event list \<Rightarrow> 'io sys option" where
  "sys_run s [] = Some s"
| "sys_run s (e # es) = (case sys_step s e of None \<Rightarrow> None | Some s' \<Rightarrow> sys_run s' es)"

fun target :: "'io sys \<Rightarrow> 'io event \<Rightarrow> nat" where
  "target s (Handle k) = next_chan (rt s)"
| "target s (Respond c req) = c"
| "target s (Transmit c) = c"
| "target s (Upgrade c conn) = c"
| "target s (HostDrop c) = c"
| "target s (Poll c) = c"
| "target s (DropRx c) = c"

section \<open>The invariant of every session\<close>

definition chan_ok :: "'io ws_stream oneshot \<Rightarrow> (recv_error + 'io ws_stream) list \<Rightarrow> bool" where
  "chan_ok ch r \<longleftrightarrow>
     (closed ch \<longleftrightarrow> \<not> rx_alive ch) \<and>
     (\<not> complete ch \<longrightarrow> slot ch = None \<and> \<not> rx_done ch) \<and>
     (rx_done ch \<longrightarrow> slot ch = None) \<and>
     (closed ch \<longrightarrow> slot ch = None) \<and>
     (tx_alive ch \<longrightarrow> \<not> complete ch) \<and>
     (r = [] \<longleftrightarrow> \<not> rx_done ch) \<and> length r \<le> 1"

fun phase_ok ::
  "nat \<Rightarrow> ws_config option \<Rightarrow> 'io ws_stream oneshot \<Rightarrow> status list \<Rightarrow>
   (recv_error + 'io ws_stream) list \<Rightarrow> 'io phase \<Rightarrow> bool" where
  "phase_ok c k ch w r (Created ws) \<longleftrightarrow>
     inner ws = Sender c \<and> config ws = k \<and> tx_alive ch \<and> w = []"
| "phase_ok c k ch w r (Responded resp) \<longleftrightarrow>
     resp_status resp = SwitchingProtocols \<and> tx_alive ch \<and> w = [] \<and>
     (case resp_upgrade resp of None \<Rightarrow> False | Some h \<Rightarrow> inner h = Sender c \<and> config h = k)"
| "phase_ok c k ch w r (Transmitted h) \<longleftrightarrow>
     inner h = Sender c \<and> config h = k \<and> tx_alive ch \<and> w = [SwitchingProtocols]"
| "phase_ok c k ch w r (Rejected st) \<longleftrightarrow>
     \<not> tx_alive ch \<and> complete ch \<and> slot ch = None \<and> w = [st] \<and> list_all isl r"
| "phase_ok c k ch w r Abandoned \<longleftrightarrow>
     \<not> tx_alive ch \<and> complete ch \<and> slot ch = None \<and> (w = [] \<or> w = [SwitchingProtocols]) \<and>
     list_all isl r"
| "phase_ok c k ch w r (Upgraded conn res) \<longleftrightarrow>
     \<not> tx_alive ch \<and> w = [SwitchingProtocols] \<and>
     (case res of
        Inr _ \<Rightarrow> complete ch \<and>
          (rx_alive ch \<and> \<not> rx_done ch \<longrightarrow> slot ch = Some (WebSocketStream conn Server k))
      | Inl e \<Rightarrow> closed ch \<and> \<not> rx_done ch \<and> e = hung_up) \<and>
     (case slot ch of None \<Rightarrow> True | Some st \<Rightarrow> st = WebSocketStream conn Server k) \<and>
     list_all (\<lambda>x. case x of Inl _ \<Rightarrow> True | Inr st \<Rightarrow> st = WebSocketStream conn Server k) r"

definition session_ok :: "'io sys \<Rightarrow> nat \<Rightarrow> bool" where
  "session_ok s c \<longleftrightarrow>
     (\<not> c < next_chan (rt s) \<longrightarrow>
        phase s c = None \<and> received s c = [] \<and> wire s c = [] \<and> chan_of (rt s) c = oneshot_channel) \<and>
     (c < next_chan (rt s) \<longrightarrow>
        chan_ok (chan_of (rt s) c) (received s c) \<and>
        (case phase s c of None \<Rightarrow> False
         | Some p \<Rightarrow> phase_ok c (cfg s c) (chan_of (rt s) c) (wire s c) (received s c) p))"

definition sys_inv :: "'io sys \<Rightarrow> bool" where
  "sys_inv s \<longleftrightarrow> (\<forall>c. session_ok s c)"

definition view :: "'io sys \<Rightarrow> nat \<Rightarrow> bool \<times> 'io ws_stream oneshot \<times> 'io phase option \<times>
    (recv_error + 'io ws_stream) list \<times> status list \<times> ws_config option" where
  "view s c = (c < next_chan (rt s), chan_of (rt s) c, phase s c, received s c, wire s c, cfg s c)"

text \<open>
  \<open>chan_ok\<close> relates a channel's flags to what the awaiting task has received;
  \<open>phase_ok\<close> says, for each phase of the host, who holds the sender, what has been
  written on the wire and what the slot may hold. Every event keeps the invariant of
  the session it acts on (\<open>step_target_ok\<close>) and leaves every other session as it was
  (\<open>step_frame\<close>).
\<close>

lemma sys_inv_init: "sys_inv sys_init"
  by (simp add: sys_inv_def session_ok_def sys_init_def chan_of_def)

lemma session_ok_view: "view s' c = view s c \<Longrightarrow> session_ok s' c = session_ok s c"
  by (simp add: view_def session_ok_def split: option.split)

lemma target_inner:
  "session_ok s c \<Longrightarrow> phase s c = Some (Created ws) \<Longrightarrow> inner ws = Sender c"
  "session_ok s c \<Longrightarrow> phase s c = Some (Transmitted h) \<Longrightarrow> inner h = Sender c"
  "session_ok s c \<Longrightarrow> phase s c = Some (Responded resp) \<Longrightarrow> resp_upgrade resp = Some h \<Longrightarrow> inner h = Sender c"
  by (auto simp: session_ok_def split: if_splits)

lemma step_frame:
  assumes step: "sys_step s e = Some s'" and ok: "session_ok s (target s e)"
    and ne: "c \<noteq> target s e"
  shows "view s' c = view s c"
  using step ok ne
proof (cases e)
  case (Handle k)
  then show ?thesis using step ne
    by (auto simp: view_def dest!: handler_new_result split: prod.splits)
next
  case (Respond c' req)
  then show ?thesis using step ok ne
    by (auto simp: view_def chan_of_drop_responder target_inner
        dest!: respond_to_outcome split: option.splits phase.splits sum.splits prod.splits)
next
  case (Transmit c')
  then show ?thesis using step ne
    by (auto simp: view_def split: option.splits phase.splits)
next
  case (Upgrade c' conn)
  then show ?thesis using step ok ne
    by (auto simp: view_def on_upgrade_def target_inner split: option.splits phase.splits prod.splits sender.splits)
next
  case (HostDrop c')
  then show ?thesis using step ok ne
    by (auto simp: view_def chan_of_drop_responder target_inner split: option.splits phase.splits)
next
  case (Poll c')
  then show ?thesis using step ne
    by (auto simp: view_def recv_poll_def split: if_splits prod.splits poll.splits)
next
  case (DropRx c')
  then show ?thesis using step ne
    by (auto simp: view_def drop_receiver_def update_chan_def split: if_splits)
qed


lemmas chan_ops = oneshot_channel_def oneshot_send_def oneshot_drop_tx_def oneshot_poll_def
  oneshot_drop_rx_def

lemma phase_ok_poll_none:
  "phase_ok c k ch w [] p \<Longrightarrow> \<not> closed ch \<Longrightarrow>
   phase_ok c k (ch\<lparr>rx_done := True\<rparr>) w [Inl RecvError] p"
  by (cases p) (auto split: sum.splits option.splits)

lemma phase_ok_poll_some:
  "phase_ok c k ch w [] p \<Longrightarrow> \<not> closed ch \<Longrightarrow> \<not> tx_alive ch \<Longrightarrow> slot ch = Some t \<Longrightarrow>
   phase_ok c k (ch\<lparr>slot := None, rx_done := True\<rparr>) w [Inr t] p"
  by (cases p) (auto split: sum.splits option.splits)

lemma phase_ok_drop_rx:
  "phase_ok c k ch w r p \<Longrightarrow>
   phase_ok c k (ch\<lparr>slot := None, closed := True, rx_alive := False\<rparr>) w r p"
  by (cases p) (auto split: sum.splits option.splits)

lemma step_target_ok:
  assumes step: "sys_step s e = Some s'" and ok: "session_ok s (target s e)"
  shows "session_ok s' (target s e)"
  using step ok
proof (cases e)
  case (Handle k)
  then show ?thesis using step ok
    by (auto simp: session_ok_def chan_ok_def chan_ops dest!: handler_new_result split: prod.splits)
next
  case (Respond c req)
  then show ?thesis using step ok
    by (auto simp: session_ok_def chan_ok_def chan_ops chan_of_drop_responder
        dest!: respond_to_outcome split: option.splits phase.splits sum.splits prod.splits)
next
  case (Transmit c)
  then show ?thesis using step ok
    by (auto simp: session_ok_def split: option.splits phase.splits)
next
  case (Upgrade c conn)
  then show ?thesis using step ok
    by (auto simp: session_ok_def chan_ok_def chan_ops on_upgrade_def from_raw_socket_def
        split: option.splits phase.splits prod.splits sender.splits if_splits)
next
  case (HostDrop c)
  then show ?thesis using step ok
    by (auto simp: session_ok_def chan_ok_def chan_ops chan_of_drop_responder
        split: option.splits phase.splits)
next
  case (Poll c)
  then show ?thesis using step ok
    by (auto simp: session_ok_def chan_ok_def chan_ops rx_waiting_def recv_poll_def
        phase_ok_poll_none phase_ok_poll_some
        split: option.splits prod.splits if_splits poll.splits sum.splits)
next
  case (DropRx c)
  then show ?thesis using step ok
    by (auto simp: session_ok_def chan_ok_def chan_ops drop_receiver_def update_chan_def
        phase_ok_drop_rx split: option.splits if_splits)
qed


lemma sys_step_inv: "sys_step s e = Some s' \<Longrightarrow> sys_inv s \<Longrightarrow> sys_inv s'"
  unfolding sys_inv_def
proof
  fix c
  assume step: "sys_step s e = Some s'" and all: "\<forall>c. session_ok s c"
  show "session_ok s' c"
  proof (cases "c = target s e")
    case True
    from all have "session_ok s (target s e)" by simp
    with step True show ?thesis by (simp add: step_target_ok)
  next
    case False
    from all have ok: "session_ok s (target s e)" by simp
    from step ok False have "view s' c = view s c" by (rule step_frame)
    then have "session_ok s' c = session_ok s c" by (rule session_ok_view)
    with all show ?thesis by simp
  qed
qed

lemma reachable_inv: "reachable s \<Longrightarrow> sys_inv s"
proof (induction rule: reachable.induct)
  case init
  show ?case by (rule sys_inv_init)
next
  case (step s e s')
  then show ?case by (blast intro: sys_step_inv)
qed

section \<open>Consequences of the invariant\<close>

lemma reachable_session: "reachable s \<Longrightarrow> session_ok s c"
  using reachable_inv[of s] by (simp add: sys_inv_def)

lemma reachable_run: "sys_run s es = Some s' \<Longrightarrow> reachable s \<Longrightarrow> reachable s'"
proof (induction s es rule: sys_run.induct)
  case (1 s)
  then show ?case by simp
next
  case (2 s e es)
  then show ?case by (auto intro: reachable.step split: option.splits)
qed

lemma fresh_session:
  "reachable s \<Longrightarrow> received s (next_chan (rt s)) = [] \<and> wire s (next_chan (rt s)) = []"
  using reachable_session[of s "next_chan (rt s)"] by (simp add: session_ok_def)

lemma session_phase:
  "session_ok s c \<Longrightarrow> c < next_chan (rt s) \<Longrightarrow> phase s c = Some p \<Longrightarrow>
   chan_ok (chan_of (rt s) c) (received s c) \<and>
   phase_ok c (cfg s c) (chan_of (rt s) c) (wire s c) (received s c) p"
  by (simp add: session_ok_def)

lemma session_allocated: "session_ok s c \<Longrightarrow> phase s c = Some p \<Longrightarrow> c < next_chan (rt s)"
  by (cases "c < next_chan (rt s)") (auto simp: session_ok_def)

lemma received_stream_phase:
  assumes "session_ok s c" and "Inr st \<in> set (received s c)"
  shows "wire s c = [SwitchingProtocols] \<and>
         (\<exists>conn. phase s c = Some (Upgraded conn (Inr ())) \<and> st = WebSocketStream conn Server (cfg s c))"
proof -
  have c: "c < next_chan (rt s)"
    using assms by (cases "c < next_chan (rt s)") (auto simp: session_ok_def)
  then obtain p where p: "phase s c = Some p"
    using assms(1) by (cases "phase s c") (auto simp: session_ok_def)
  have inv: "chan_ok (chan_of (rt s) c) (received s c)"
    "phase_ok c (cfg s c) (chan_of (rt s) c) (wire s c) (received s c) p"
    using session_phase[OF assms(1) c p] by simp_all
  show ?thesis
    using inv assms(2) p
    by (cases p) (auto simp: chan_ok_def list_all_iff split: sum.splits)
qed

end
