(* ===== verification/Contract.thy ===== *)
theory Contract
  imports Upgrade
begin

text \<open>
  The contract of one upgrade attempt as the specification states it (sections 3, 4.4
  and 6 of spec.md), as an abstract state machine, and the proof that the program
  implements it. An attempt is the configuration it was created with, the status the
  host has written (none yet, 400 or 101), the state of the hand-off channel (empty,
  fulfilled with a stream, or its sender dropped) and the state of the consumer
  (waiting, received a result, gone). \<open>spec_step\<close> lists the moves the contract allows;
  \<open>session_abs\<close> reads the abstract attempt off a state of the system of Upgrade.thy,
  and every event of the system moves every session by one allowed move or leaves it
  as it was (\<open>sys_step_refines\<close>), so every reachable session is a reachable state
  of the contract.
\<close>

section \<open>The contract of an upgrade attempt\<close>

datatype 'io handoff = Empty | Fulfilled "'io ws_stream" | SendersDropped

datatype 'io consumer = Waiting | Received "recv_error + 'io ws_stream" | Gone

datatype 'io attempt =
    NoAttempt
  | Attempt "ws_config option" "status option" "'io handoff" "'io consumer"

text \<open>The moves: the handler creates the attempt; \<open>respond_to\<close> rejects it (the host
  writes 400 and the sender is dropped) or the host writes 101; the host drops the
  sender without invoking the callback; the callback fulfils the channel with the
  server-role stream of the connection and the attempt's configuration, which needs the
  101 written and a waiting consumer; the consumer receives the stream, or the hang-up
  once the sender is gone; the consumer gives up.\<close>

inductive spec_step :: "'io attempt \<Rightarrow> 'io attempt \<Rightarrow> bool" where
  create: "spec_step NoAttempt (Attempt k None Empty Waiting)"
| reject: "spec_step (Attempt k None Empty rx) (Attempt k (Some BadRequest) SendersDropped rx)"
| switch: "spec_step (Attempt k None Empty rx) (Attempt k (Some SwitchingProtocols) Empty rx)"
| drop_sender: "spec_step (Attempt k w Empty rx) (Attempt k w SendersDropped rx)"
| fulfil: "spec_step (Attempt k (Some SwitchingProtocols) Empty Waiting)
             (Attempt k (Some SwitchingProtocols) (Fulfilled (WebSocketStream conn Server k)) Waiting)"
| receive: "spec_step (Attempt k w (Fulfilled st) Waiting) (Attempt k w (Fulfilled st) (Received (Inr st)))"
| hang_up: "spec_step (Attempt k w SendersDropped Waiting)
              (Attempt k w SendersDropped (Received (Inl RecvError)))"
| give_up: "spec_step (Attempt k w h Waiting) (Attempt k w h Gone)"

inductive spec_reach :: "'io attempt \<Rightarrow> bool" where
  start: "spec_reach NoAttempt"
| move: "spec_reach a \<Longrightarrow> spec_step a b \<Longrightarrow> spec_reach b"

section \<open>The abstraction of a session\<close>

fun handoff_of :: "'io phase \<Rightarrow> ws_config option \<Rightarrow> 'io handoff" where
  "handoff_of (Created _) k = Empty"
| "handoff_of (Responded _) k = Empty"
| "handoff_of (Transmitted _) k = Empty"
| "handoff_of (Rejected _) k = SendersDropped"
| "handoff_of Abandoned k = SendersDropped"
| "handoff_of (Upgraded conn (Inr _)) k = Fulfilled (WebSocketStream conn Server k)"
| "handoff_of (Upgraded conn (Inl _)) k = SendersDropped"

fun first_of :: "'a list \<Rightarrow> 'a option" where
  "first_of [] = None"
| "first_of (x # _) = Some x"

fun consumer_of :: "bool \<Rightarrow> (recv_error + 'io ws_stream) list \<Rightarrow> 'io consumer" where
  "consumer_of _ (x # _) = Received x"
| "consumer_of True [] = Waiting"
| "consumer_of False [] = Gone"

definition session_abs :: "'io sys \<Rightarrow> nat \<Rightarrow> 'io attempt" where
  "session_abs s c =
     (case phase s c of
        None \<Rightarrow> NoAttempt
      | Some p \<Rightarrow>
          Attempt (cfg s c) (first_of (wire s c)) (handoff_of p (cfg s c))
            (consumer_of (rx_alive (chan_of (rt s) c)) (received s c)))"

section \<open>Every event is a move of the contract\<close>

lemma session_abs_view: "view s' c = view s c \<Longrightarrow> session_abs s' c = session_abs s c"
  by (auto simp: view_def session_abs_def split: option.split)

lemma step_target_refines:
  assumes step: "sys_step s e = Some s'" and ok: "session_ok s (target s e)"
  shows "spec_step (session_abs s (target s e)) (session_abs s' (target s e)) \<or>
         session_abs s' (target s e) = session_abs s (target s e)"
  using step ok
proof (cases e)
  case (Handle k)
  then show ?thesis using step ok
    by (auto simp: session_abs_def session_ok_def handler_new_def websocket_new_def
        websocket_with_config_def alloc_channel_def chan_of_def oneshot_channel_def
        spec_step.create split: option.splits)
next
  case (Respond c req)
  then obtain ws where p: "phase s c = Some (Created ws)"
    using step by (auto split: option.splits phase.splits)
  have c: "c < next_chan (rt s)" using session_allocated[of s c] ok p Respond by simp
  have i: "inner ws = Sender c" using target_inner(1)[of s c ws] ok p Respond by simp
  have w: "wire s c = []" using session_phase[of s c] ok p c Respond by simp
  obtain r rt' where rt: "respond_to ws req (rt s) = (r, rt')" by fastforce
  then show ?thesis using step p i w Respond respond_to_outcome[OF rt]
    by (auto simp: session_abs_def chan_of_drop_responder oneshot_drop_tx_def
        spec_step.reject)
next
  case (Transmit c)
  then show ?thesis using step ok
    by (auto simp: session_abs_def session_ok_def spec_step.switch
        split: option.splits phase.splits if_splits)
next
  case (Upgrade c conn)
  then obtain h where p: "phase s c = Some (Transmitted h)"
    using step by (auto split: option.splits phase.splits)
  have c: "c < next_chan (rt s)" using session_allocated[of s c] ok p Upgrade by simp
  have inv: "chan_ok (chan_of (rt s) c) (received s c)"
    "phase_ok c (cfg s c) (chan_of (rt s) c) (wire s c) (received s c) (Transmitted h)"
    using session_phase[of s c] ok p c Upgrade by simp_all
  then show ?thesis using step p Upgrade
    by (auto simp: session_abs_def chan_ok_def on_upgrade_def oneshot_send_def from_raw_socket_def
        Let_def spec_step.fulfil spec_step.drop_sender split: if_splits)
next
  case (HostDrop c)
  then show ?thesis using step ok
    by (auto simp: session_abs_def chan_of_drop_responder oneshot_drop_tx_def target_inner
        spec_step.drop_sender split: option.splits phase.splits)
next
  case (Poll c)
  then have w: "rx_waiting s c" using step by (simp split: if_splits)
  then have c: "c < next_chan (rt s)" by (simp add: rx_waiting_def)
  then obtain p where p: "phase s c = Some p"
    using ok Poll by (cases "phase s c") (auto simp: session_ok_def)
  have inv: "chan_ok (chan_of (rt s) c) (received s c)"
    "phase_ok c (cfg s c) (chan_of (rt s) c) (wire s c) (received s c) p"
    using session_phase[of s c] ok p c Poll by simp_all
  show ?thesis using step p Poll w inv
    by (cases p) (auto simp: session_abs_def chan_ok_def rx_waiting_def recv_poll_def oneshot_poll_def
        spec_step.receive spec_step.hang_up split: if_splits option.splits sum.splits)
next
  case (DropRx c)
  then show ?thesis using step
    by (cases "received s c")
      (auto simp: session_abs_def drop_receiver_def update_chan_def oneshot_drop_rx_def
        spec_step.give_up split: if_splits option.splits)
qed

lemma sys_step_refines:
  assumes "sys_step s e = Some s'" and "reachable s"
  shows "spec_step (session_abs s c) (session_abs s' c) \<or> session_abs s' c = session_abs s c"
proof (cases "c = target s e")
  case True
  then show ?thesis using step_target_refines[OF assms(1) reachable_session[OF assms(2)]] by simp
next
  case False
  then show ?thesis
    using session_abs_view[OF step_frame[OF assms(1) reachable_session[OF assms(2)]]] by simp
qed

lemma session_abs_init [simp]: "session_abs sys_init c = NoAttempt"
  by (simp add: session_abs_def sys_init_def)

section \<open>The program implements the contract\<close>

text \<open>C25: refinement of the contract. In every reachable state of handlers, host,
  callbacks and awaiting tasks, each session, read as an upgrade attempt, is a state the
  contract reaches by its own moves: every event of the program is a move of the
  contract on the session it acts on, or no change.\<close>

theorem upgrade_refines_contract: "reachable s \<Longrightarrow> spec_reach (session_abs s c)"
proof (induction rule: reachable.induct)
  case init
  show ?case by (simp add: spec_reach.start)
next
  case (step s e s')
  then show ?case using sys_step_refines[OF step.hyps(2,1), of c] by (auto intro: spec_reach.move)
qed

end
