(* ===== verification/Echo.thy ===== *)
theory Echo
  imports Responder "HOL-Library.Sublist"
begin

text \<open>
  The echo example, src/examples/echo.rs. The route \<open>/echo\<close> (lines 12--26) creates a
  responder, spawns a task and returns the responder to Rocket; the task awaits the
  receiver and, when it gets a stream, splits it, forwards the incoming messages to the
  outgoing half while they are text (\<open>take_while\<close> with \<open>m.as_ref().unwrap().is_text()\<close>),
  and panics with \<open>failed to forward message\<close> when forwarding fails. The route \<open>/\<close>
  (lines 28--65) serves a constant page whose script opens a WebSocket to \<open>/echo\<close>;
  \<open>main\<close> (lines 67--70) mounts both routes.

  The stream's halves are tungstenite's (a library the code only calls): the incoming
  half is the list of items the peer's frames produce, each a message or an error; the
  outgoing half is a sink whose \<open>start_send\<close> and \<open>close\<close> results are given, as the
  network decides them. A panic of the task is the value \<open>Inl msg\<close>.
\<close>

section \<open>Messages and the two halves of the stream\<close>

datatype message =
    Text string
  | Binary "byte list"
  | Ping "byte list"
  | Pong "byte list"
  | Close "(nat \<times> string) option"

fun is_text :: "message \<Rightarrow> bool" where
  "is_text (Text _) = True"
| "is_text _ = False"

datatype ws_error =
    ConnectionClosed
  | AlreadyClosed
  | Io
  | Capacity
  | Protocol
  | SendQueueFull
  | Utf8

record sink =
  sent :: "message list"
  send_result :: "nat \<Rightarrow> ws_error option"
  close_result :: "ws_error option"
  sink_closed :: bool

definition sink_send :: "message \<Rightarrow> sink \<Rightarrow> (ws_error + unit) \<times> sink" where
  "sink_send m s =
     (case send_result s (length (sent s)) of
        Some e \<Rightarrow> (Inl e, s)
      | None \<Rightarrow> (Inr (), s\<lparr>sent := sent s @ [m]\<rparr>))"

definition sink_close :: "sink \<Rightarrow> (ws_error + unit) \<times> sink" where
  "sink_close s =
     (case close_result s of
        Some e \<Rightarrow> (Inl e, s\<lparr>sink_closed := True\<rparr>)
      | None \<Rightarrow> (Inr (), s\<lparr>sink_closed := True\<rparr>))"

section \<open>The forwarding task\<close>

definition unwrap_panic :: string where
  "unwrap_panic = ''called `Result::unwrap()` on an `Err` value''"

text \<open>The predicate of \<open>take_while\<close> (line 19): \<open>unwrap\<close> panics on an error item.\<close>

definition echo_keep :: "ws_error + message \<Rightarrow> string + bool" where
  "echo_keep m = (case m of Inl e \<Rightarrow> Inl unwrap_panic | Inr msg \<Rightarrow> Inr (is_text msg))"

text \<open>\<open>read.take_while(..).forward(write)\<close> (lines 19--21): \<open>Forward\<close> sends each item
  the filtered stream yields before it pulls the next one, stops with the sink's error,
  and closes the sink when the stream ends, here at the first item that is not text.\<close>

fun forward_echo :: "(ws_error + message) list \<Rightarrow> sink \<Rightarrow> (string + (ws_error + unit)) \<times> sink" where
  "forward_echo [] s = (case sink_close s of (r, s') \<Rightarrow> (Inr r, s'))"
| "forward_echo (m # ms) s =
     (case echo_keep m of
        Inl p \<Rightarrow> (Inl p, s)
      | Inr False \<Rightarrow> (case sink_close s of (r, s') \<Rightarrow> (Inr r, s'))
      | Inr True \<Rightarrow>
          (case sink_send (projr m) s of
             (Inl e, s') \<Rightarrow> (Inr (Inl e), s')
           | (Inr _, s') \<Rightarrow> forward_echo ms s'))"

definition expect :: "string \<Rightarrow> 'e + 'a \<Rightarrow> string + 'a" where
  "expect msg r = (case r of Inl e \<Rightarrow> Inl msg | Inr a \<Rightarrow> Inr a)"

text \<open>The spawned task (lines 16--24), given what \<open>rx.await\<close> returned, the items the
  peer sends and the outgoing half.\<close>

definition echo_task ::
  "recv_error + 'io ws_stream \<Rightarrow> (ws_error + message) list \<Rightarrow> sink \<Rightarrow> (string + unit) \<times> sink" where
  "echo_task r incoming s =
     (case r of
        Inl _ \<Rightarrow> (Inr (), s)
      | Inr ws_stream \<Rightarrow>
          (case forward_echo incoming s of
             (Inl p, s') \<Rightarrow> (Inl p, s')
           | (Inr fr, s') \<Rightarrow> (expect ''failed to forward message'' fr, s')))"

section \<open>The index page and the routes\<close>

text \<open>The page of \<open>index\<close> (lines 29--65), line by line, and the routes \<open>main\<close> mounts
  at \<open>/\<close> (line 69) with the paths of their attributes (lines 12 and 28).\<close>

fun join_lines :: "string list \<Rightarrow> string" where
  "join_lines [] = []"
| "join_lines [l] = l"
| "join_lines (l # ls) = l @ CHR 0x0A # join_lines ls"

definition index_lines :: "string list" where
  "index_lines =
    [''<!DOCTYPE html>'',
     ''<html lang='' @ [CHR 0x22] @ ''en'' @ [CHR 0x22] @ ''>'',
     ''    <head>'',
     ''        <title>WebSocket Echo Server</title>'',
     ''    </head>'',
     ''    <body>'',
     ''        <h1>Echo Server</h1>'',
     ''        <p id='' @ [CHR 0x22] @ ''status'' @ [CHR 0x22] @ ''>Connecting...</p>'',
     ''        <input type='' @ [CHR 0x22] @ ''text'' @ [CHR 0x22] @ '' id='' @ [CHR 0x22] @ ''text'' @ [CHR 0x22] @ '' />'',
     ''        <button type='' @ [CHR 0x22] @ ''button'' @ [CHR 0x22] @ '' id='' @ [CHR 0x22] @ ''send'' @ [CHR 0x22] @ ''>Send</button>'',
     ''        <div id='' @ [CHR 0x22] @ ''lines'' @ [CHR 0x22] @ ''></div>'',
     ''        <script type='' @ [CHR 0x22] @ ''text/javascript'' @ [CHR 0x22] @ ''>'',
     ''            const lines = document.getElementById('lines');'',
     ''            const text = document.getElementById('text');'',
     ''            const status = document.getElementById('status');'',
     ''            const ws = new WebSocket('ws://' + location.host + '/echo');'',
     ''            ws.onopen = function() {'',
     ''                status.innerText = 'Connected :)';'',
     ''            };'',
     ''            ws.onclose = function() {'',
     ''                status.innerText = 'Disconnected :(';'',
     ''                lines.innerHTML = '' @ [CHR 0x27, CHR 0x27] @ '';'',
     ''            };'',
     ''            ws.onmessage = function(msg) {'',
     ''                const line = document.createElement('p');'',
     ''                line.innerText = msg.data;'',
     ''                lines.prepend(line);'',
     ''            };'',
     ''            send.onclick = function() {'',
     ''                ws.send(text.value);'',
     ''                text.value = '' @ [CHR 0x27, CHR 0x27] @ '';'',
     ''            };'',
     ''        </script>'',
     ''    </body>'',
     ''</html>'']"

definition index_html :: string where
  "index_html = join_lines index_lines"

datatype route = IndexRoute | EchoRoute

definition mounted :: "(string \<times> route) list" where
  "mounted = [(''/'', IndexRoute), (''/echo'', EchoRoute)]"

definition route_of :: "string \<Rightarrow> route option" where
  "route_of path = map_of mounted path"

section \<open>Forwarding\<close>

lemma sink_send_ok [simp]:
  "send_result s (length (sent s)) = None \<Longrightarrow> sink_send m s = (Inr (), s\<lparr>sent := sent s @ [m]\<rparr>)"
  by (simp add: sink_send_def)

lemma sink_send_err [simp]:
  "send_result s (length (sent s)) = Some e \<Longrightarrow> sink_send m s = (Inl e, s)"
  by (simp add: sink_send_def)

lemma echo_keep_simps [simp]:
  "echo_keep (Inl e) = Inl unwrap_panic"
  "echo_keep (Inr msg) = Inr (is_text msg)"
  by (simp_all add: echo_keep_def)

text \<open>Whatever the peer and the network do, the sink receives a prefix of the incoming
  items, all of them text messages.\<close>

lemma forward_echo_sent:
  "\<exists>d. sent (snd (forward_echo ms s)) = sent s @ d \<and> prefix (map Inr d) ms \<and> list_all is_text d"
proof (induction ms arbitrary: s)
  case Nil
  then show ?case by (simp add: sink_close_def split: option.split)
next
  case (Cons m ms)
  show ?case
  proof (cases m)
    case (Inl e)
    then show ?thesis by (intro exI[of _ "[]"]) simp
  next
    case (Inr msg)
    show ?thesis
    proof (cases "is_text msg")
      case isT: True
      show ?thesis
      proof (cases "send_result s (length (sent s))")
        case None
        obtain d where "sent (snd (forward_echo ms (s\<lparr>sent := sent s @ [msg]\<rparr>))) =
                          sent s @ [msg] @ d"
          and "prefix (map Inr d) ms" and "list_all is_text d"
          using Cons.IH[of "s\<lparr>sent := sent s @ [msg]\<rparr>"] by auto
        with Inr isT None show ?thesis by (intro exI[of _ "msg # d"]) simp
      next
        case (Some e)
        with Inr isT show ?thesis by (intro exI[of _ "[]"]) simp
      qed
    next
      case False
      with Inr show ?thesis
        by (intro exI[of _ "[]"]) (simp add: sink_close_def split: option.split)
    qed
  qed
qed

lemma forward_echo_texts:
  assumes "\<forall>n. send_result s n = None" and "close_result s = None"
  shows "forward_echo (map Inr msgs) s =
           (Inr (Inr ()), s\<lparr>sent := sent s @ takeWhile is_text msgs, sink_closed := True\<rparr>)"
  using assms by (induction msgs arbitrary: s) (simp_all add: sink_close_def)

lemma forward_echo_read_error:
  assumes "list_all is_text pre"
    and "\<forall>n < length (sent s) + length pre. send_result s n = None"
  shows "forward_echo (map Inr pre @ Inl e # rest) s = (Inl unwrap_panic, s\<lparr>sent := sent s @ pre\<rparr>)"
  using assms by (induction pre arbitrary: s) simp_all

lemma forward_echo_send_error:
  assumes "list_all is_text pre" and "is_text m"
    and "\<forall>n < length (sent s) + length pre. send_result s n = None"
    and "send_result s (length (sent s) + length pre) = Some e"
  shows "forward_echo (map Inr pre @ Inr m # map Inr rest) s = (Inr (Inl e), s\<lparr>sent := sent s @ pre\<rparr>)"
  using assms by (induction pre arbitrary: s) simp_all

section \<open>The task\<close>

text \<open>C15: when the peer sends messages and the network takes everything, the task
  echoes the messages up to the first one that is not text, in order, then closes its
  outgoing half and ends without panicking.\<close>

theorem echo_task_echoes:
  assumes "\<forall>n. send_result s n = None" and "close_result s = None"
  shows "echo_task (Inr st) (map Inr msgs) s =
           (Inr (), s\<lparr>sent := sent s @ takeWhile is_text msgs, sink_closed := True\<rparr>)"
  by (simp add: echo_task_def forward_echo_texts[OF assms] expect_def)

text \<open>C16: for every outcome of \<open>rx.await\<close>, every sequence of incoming items and every
  behaviour of the network, what the task sends is a prefix of what it received, and
  only text messages.\<close>

theorem echo_task_sent_prefix:
  "\<exists>d. sent (snd (echo_task r incoming s)) = sent s @ d \<and> prefix (map Inr d) incoming \<and>
       list_all is_text d"
proof (cases r)
  case (Inl e)
  then show ?thesis by (intro exI[of _ "[]"]) (simp add: echo_task_def)
next
  case (Inr st)
  obtain d where "sent (snd (forward_echo incoming s)) = sent s @ d"
    and "prefix (map Inr d) incoming" and "list_all is_text d"
    using forward_echo_sent by blast
  with Inr show ?thesis
    by (intro exI[of _ d]) (auto simp: echo_task_def split: prod.split sum.split)
qed

text \<open>C17: an error item read while the messages so far were text makes the task panic in
  \<open>unwrap\<close> (line 19), after it has echoed the text messages before it.\<close>

theorem echo_task_read_error:
  assumes "list_all is_text pre"
    and "\<forall>n < length (sent s) + length pre. send_result s n = None"
  shows "echo_task (Inr st) (map Inr pre @ Inl e # rest) s = (Inl unwrap_panic, s\<lparr>sent := sent s @ pre\<rparr>)"
  by (simp add: echo_task_def forward_echo_read_error[OF assms])

text \<open>C18: when the network refuses a text message, the task panics with \<open>failed to
  forward message\<close> (line 22); the messages before it were echoed, nothing after.\<close>

theorem echo_task_send_error:
  assumes "list_all is_text pre" and "is_text m"
    and "\<forall>n < length (sent s) + length pre. send_result s n = None"
    and "send_result s (length (sent s) + length pre) = Some e"
  shows "echo_task (Inr st) (map Inr (pre @ m # rest)) s =
           (Inl ''failed to forward message'', s\<lparr>sent := sent s @ pre\<rparr>)"
  by (simp add: echo_task_def forward_echo_send_error[OF assms] expect_def)

end
