(* ===== verification/Page.thy ===== *)
theory Page
  imports Echo
begin

text \<open>
  The client half of the echo example: the script of the page \<open>index\<close> serves
  (src/examples/echo.rs, lines 41--62), run by the browser. The page's elements
  (lines 37--40) are the state the script reads and writes: the text of
  \<open>p#status\<close>, the paragraphs of \<open>div#lines\<close>, the value of \<open>input#text\<close>. The script
  opens a WebSocket on \<open>/echo\<close> (line 45) and installs four handlers: \<open>ws.onopen\<close>
  (46--48), \<open>ws.onclose\<close> (49--52), \<open>ws.onmessage\<close> (53--57) and \<open>send.onclick\<close>
  (58--61).

  The browser is a collaborator the script only calls, modelled from the WHATWG
  WebSocket interface: \<open>readyState\<close> goes from CONNECTING to OPEN, CLOSING and CLOSED;
  \<open>send\<close> throws \<open>InvalidStateError\<close> while CONNECTING, queues the data while OPEN and
  drops it afterwards; a message event reaches \<open>onmessage\<close> only while OPEN, with
  \<open>data\<close> the text of a text frame and a \<open>Blob\<close> for a binary one; a close frame of the
  server starts the closing handshake; \<open>onclose\<close> runs once the connection is closed.
  An exception thrown out of a handler ends that handler and is reported, here as
  the list \<open>uncaught\<close>. One browser event runs one handler to its end.
\<close>

section \<open>The page and its WebSocket\<close>

datatype ready_state = Connecting | Open | Closing | Closed

record page =
  status_text :: string
  lines_text :: "string list"
  text_value :: string
  ready :: ready_state
  ws_out :: "string list"
  uncaught :: "string list"

text \<open>The page as loaded: the status paragraph says \<open>Connecting...\<close> (line 37), the
  input and \<open>div#lines\<close> are empty (38--40), and \<open>new WebSocket(..)\<close> (line 45) starts
  in CONNECTING with nothing queued.\<close>

definition page_init :: page where
  "page_init =
     \<lparr>status_text = ''Connecting...'', lines_text = [], text_value = [], ready = Connecting,
      ws_out = [], uncaught = []\<rparr>"

datatype msg_data = DataText string | DataBlob "byte list"

text \<open>Assigning \<open>msg.data\<close> to \<open>innerText\<close> (line 55) converts it to a string: a text
  message's data is its text, a \<open>Blob\<close> converts to \<open>[object Blob]\<close>.\<close>

fun inner_text_of :: "msg_data \<Rightarrow> string" where
  "inner_text_of (DataText t) = t"
| "inner_text_of (DataBlob _) = ''[object Blob]''"

definition invalid_state_error :: string where
  "invalid_state_error = ''InvalidStateError''"

definition ws_send :: "string \<Rightarrow> page \<Rightarrow> string + page" where
  "ws_send d p =
     (case ready p of
        Connecting \<Rightarrow> Inl invalid_state_error
      | Open \<Rightarrow> Inr (p\<lparr>ws_out := ws_out p @ [d]\<rparr>)
      | Closing \<Rightarrow> Inr p
      | Closed \<Rightarrow> Inr p)"

section \<open>The handlers of the script\<close>

definition ws_onopen :: "page \<Rightarrow> page" where
  "ws_onopen p = p\<lparr>status_text := ''Connected :)''\<rparr>"

definition ws_onclose :: "page \<Rightarrow> page" where
  "ws_onclose p = p\<lparr>status_text := ''Disconnected :('', lines_text := []\<rparr>"

definition ws_onmessage :: "msg_data \<Rightarrow> page \<Rightarrow> page" where
  "ws_onmessage d p = p\<lparr>lines_text := inner_text_of d # lines_text p\<rparr>"

text \<open>\<open>ws.send(text.value); text.value = '';\<close>: when \<open>send\<close> throws, the second
  statement does not run.\<close>

definition send_onclick :: "page \<Rightarrow> page" where
  "send_onclick p =
     (case ws_send (text_value p) p of
        Inl ex \<Rightarrow> p\<lparr>uncaught := uncaught p @ [ex]\<rparr>
      | Inr p' \<Rightarrow> p'\<lparr>text_value := []\<rparr>)"

section \<open>The browser's events\<close>

text \<open>What can happen to the page: the connection opens, a frame of the server
  arrives, the connection is closed, the user types into the input, the user clicks
  \<open>Send\<close>. An event the browser cannot produce in a state is \<open>None\<close>.\<close>

datatype browser_event = WsOpen | WsFrame message | WsClosed | Type string | ClickSend

fun page_step :: "page \<Rightarrow> browser_event \<Rightarrow> page option" where
  "page_step p WsOpen =
     (if ready p = Connecting then Some (ws_onopen (p\<lparr>ready := Open\<rparr>)) else None)"
| "page_step p (WsFrame m) =
     (case ready p of
        Open \<Rightarrow>
          (case m of
             Text t \<Rightarrow> Some (ws_onmessage (DataText t) p)
           | Binary b \<Rightarrow> Some (ws_onmessage (DataBlob b) p)
           | Close _ \<Rightarrow> Some (p\<lparr>ready := Closing\<rparr>)
           | _ \<Rightarrow> Some p)
      | Closing \<Rightarrow> Some p
      | _ \<Rightarrow> None)"
| "page_step p WsClosed =
     (if ready p = Closed then None else Some (ws_onclose (p\<lparr>ready := Closed\<rparr>)))"
| "page_step p (Type t) = Some (p\<lparr>text_value := t\<rparr>)"
| "page_step p ClickSend = Some (send_onclick p)"

fun page_run :: "page \<Rightarrow> browser_event list \<Rightarrow> page option" where
  "page_run p [] = Some p"
| "page_run p (e # es) = (case page_step p e of None \<Rightarrow> None | Some p' \<Rightarrow> page_run p' es)"

text \<open>The user typing each of \<open>ts\<close> and clicking \<open>Send\<close> after each.\<close>

fun type_and_send :: "string list \<Rightarrow> browser_event list" where
  "type_and_send [] = []"
| "type_and_send (t # ts) = Type t # ClickSend # type_and_send ts"

text \<open>What the page shows for each state of its socket, and what it may hold then:
  nothing is queued before the socket opens, and no line is shown before it opens or
  after it closed.\<close>

fun status_for :: "ready_state \<Rightarrow> string" where
  "status_for Connecting = ''Connecting...''"
| "status_for Open = ''Connected :)''"
| "status_for Closing = ''Connected :)''"
| "status_for Closed = ''Disconnected :(''"

definition page_ok :: "page \<Rightarrow> bool" where
  "page_ok p \<longleftrightarrow>
     status_text p = status_for (ready p) \<and>
     (ready p = Connecting \<longrightarrow> ws_out p = [] \<and> lines_text p = []) \<and>
     (ready p = Closed \<longrightarrow> lines_text p = []) \<and>
     list_all (\<lambda>e. e = invalid_state_error) (uncaught p)"

section \<open>Runs of the page\<close>

lemma page_run_append:
  "page_run p (xs @ ys) = (case page_run p xs of None \<Rightarrow> None | Some p' \<Rightarrow> page_run p' ys)"
  by (induction p xs rule: page_run.induct) (simp_all split: option.split)

lemma page_ok_init: "page_ok page_init"
  by (simp add: page_ok_def page_init_def)

lemma page_step_ok:
  assumes "page_ok p" and "page_step p e = Some p'"
  shows "page_ok p'"
  using assms
proof (cases e)
  case (WsFrame m)
  then show ?thesis using assms
    by (cases m) (auto simp: page_ok_def ws_onmessage_def split: ready_state.splits)
next
  case ClickSend
  then show ?thesis using assms
    by (auto simp: page_ok_def send_onclick_def ws_send_def split: ready_state.splits)
qed (auto simp: page_ok_def ws_onopen_def ws_onclose_def split: if_splits)

lemma page_run_ok: "page_ok p \<Longrightarrow> page_run p es = Some p' \<Longrightarrow> page_ok p'"
  by (induction p es rule: page_run.induct) (auto split: option.splits dest: page_step_ok)

text \<open>While the socket is open, typing and sending each of \<open>ts\<close> queues exactly \<open>ts\<close>
  and leaves the input empty.\<close>

lemma type_and_send_open:
  "ready p = Open \<Longrightarrow>
   page_run p (type_and_send ts) =
     Some (p\<lparr>text_value := (if ts = [] then text_value p else []), ws_out := ws_out p @ ts\<rparr>)"
  by (induction ts arbitrary: p) (simp_all add: send_onclick_def ws_send_def)

text \<open>While the socket is open, the server's text frames are shown newest first.\<close>

lemma texts_shown:
  "ready p = Open \<Longrightarrow>
   page_run p (map (WsFrame \<circ> Text) ts) = Some (p\<lparr>lines_text := rev ts @ lines_text p\<rparr>)"
  by (induction ts arbitrary: p) (simp_all add: ws_onmessage_def)

section \<open>Properties of the page\<close>

text \<open>C21: in every state the browser can bring the page to, the status paragraph
  matches the socket: \<open>Connecting...\<close> while connecting, \<open>Connected :)\<close> while open
  or closing, \<open>Disconnected :(\<close> once closed; nothing is sent and no line is shown
  before the socket opens, no line is left once it closed, and the only exception the
  script lets escape is \<open>InvalidStateError\<close>.\<close>

theorem page_states_ok:
  assumes "page_run page_init es = Some p"
  shows "page_ok p"
  using page_run_ok[OF page_ok_init assms] .

text \<open>C22: a message typed and sent before the socket has opened is not sent:
  \<open>ws.send\<close> throws \<open>InvalidStateError\<close> out of \<open>send.onclick\<close>, the input keeps the
  text and the status still says \<open>Connecting...\<close>.\<close>

theorem send_before_open:
  "page_run page_init [Type t, ClickSend] =
     Some (page_init\<lparr>text_value := t, uncaught := [invalid_state_error]\<rparr>)"
  by (simp add: page_init_def send_onclick_def ws_send_def)

text \<open>C23: once the server has started closing, or the connection is closed, clicking
  \<open>Send\<close> clears the input and sends nothing, without an error: the text is lost.\<close>

theorem send_after_close:
  assumes "ready p = Closing \<or> ready p = Closed"
  shows "page_step p ClickSend = Some (p\<lparr>text_value := []\<rparr>)"
  using assms by (auto simp: send_onclick_def ws_send_def)

end
