(* ===== verification/Sha1_Word.thy ===== *)
theory Sha1_Word
  imports Sha1 "HOL-Library.Word"
begin

unbundle bit_operations_syntax

text \<open>
  SHA-1 over the machine words the \<open>sha1\<close> crate computes with: bytes are \<open>u8\<close>
  (\<open>8 word\<close>), the state and the schedule are \<open>u32\<close> (\<open>32 word\<close>) with wrapping
  addition, \<open>rotate_left\<close>, \<open>!\<close>, \<open>&\<close>, \<open>|\<close> and \<open>^\<close>, and the message length is the
  \<open>u64\<close> bit count. The refinement theorem says that this word-level computation and
  the natural-number model of \<open>Sha1\<close> give the same digest, byte for byte, under
  \<open>unat\<close>; every lemma about \<open>sha1\<close> therefore holds of the crate's arithmetic.
\<close>

type_synonym u8w = "8 word"
type_synonym u32w = "32 word"
type_synonym h5w = "u32w \<times> u32w \<times> u32w \<times> u32w \<times> u32w"

definition be_word_w :: "u8w list \<Rightarrow> u32w" where
  "be_word_w bs = foldl (\<lambda>w b. w * 256 + ucast b) 0 bs"

definition word_be_bytes_w :: "u32w \<Rightarrow> u8w list" where
  "word_be_bytes_w w = map (\<lambda>k. ucast (drop_bit k w)) [24, 16, 8, 0]"

definition u64_be_bytes :: "64 word \<Rightarrow> u8w list" where
  "u64_be_bytes n = map (\<lambda>k. ucast (drop_bit k n)) [56, 48, 40, 32, 24, 16, 8, 0]"

definition sha1_f_w :: "nat \<Rightarrow> u32w \<Rightarrow> u32w \<Rightarrow> u32w \<Rightarrow> u32w" where
  "sha1_f_w t b c d =
     (if t < 20 then (b AND c) OR (NOT b AND d)
      else if t < 40 then b XOR c XOR d
      else if t < 60 then (b AND c) OR (b AND d) OR (c AND d)
      else b XOR c XOR d)"

definition sha1_k_w :: "nat \<Rightarrow> u32w" where
  "sha1_k_w t =
     (if t < 20 then 0x5A827999 else if t < 40 then 0x6ED9EBA1
      else if t < 60 then 0x8F1BBCDC else 0xCA62C1D6)"

definition sha1_schedule_w :: "u32w list \<Rightarrow> u32w list" where
  "sha1_schedule_w w16 =
     foldl (\<lambda>ws t. ws @ [word_rotl 1 (ws ! (t - 3) XOR ws ! (t - 8) XOR ws ! (t - 14) XOR ws ! (t - 16))])
       w16 [16..<80]"

fun sha1_rounds_w :: "nat \<Rightarrow> u32w list \<Rightarrow> h5w \<Rightarrow> h5w" where
  "sha1_rounds_w t [] s = s"
| "sha1_rounds_w t (w # ws) (a, b, c, d, e) =
     sha1_rounds_w (t + 1) ws
       (word_rotl 5 a + sha1_f_w t b c d + e + w + sha1_k_w t, a, word_rotl 30 b, c, d)"

definition sha1_compress_w :: "h5w \<Rightarrow> u8w list \<Rightarrow> h5w" where
  "sha1_compress_w h blk =
     (case h of (h0, h1, h2, h3, h4) \<Rightarrow>
       (case sha1_rounds_w 0 (sha1_schedule_w (map be_word_w (chunks 4 blk))) h of
         (a, b, c, d, e) \<Rightarrow> (h0 + a, h1 + b, h2 + c, h3 + d, h4 + e)))"

definition sha1_iv_w :: h5w where
  "sha1_iv_w = (0x67452301, 0xEFCDAB89, 0x98BADCFE, 0x10325476, 0xC3D2E1F0)"

definition sha1_padding_w :: "nat \<Rightarrow> u8w list" where
  "sha1_padding_w l = [0x80] @ replicate ((119 - l mod 64) mod 64) 0 @ u64_be_bytes (word_of_nat (8 * l))"

definition sha1_w :: "u8w list \<Rightarrow> u8w list" where
  "sha1_w m =
     (case foldl sha1_compress_w sha1_iv_w (chunks 64 (m @ sha1_padding_w (length m))) of
        (a, b, c, d, e) \<Rightarrow> concat (map word_be_bytes_w [a, b, c, d, e]))"

definition unat5 :: "h5w \<Rightarrow> h5" where
  "unat5 h = (case h of (a, b, c, d, e) \<Rightarrow> (unat a, unat b, unat c, unat d, unat e))"

section \<open>The u32 operations\<close>

lemma rotl_or:
  assumes "0 < n" "n < 32"
  shows "word_rotl n (x::u32w) = push_bit n x OR drop_bit (32 - n) x"
proof (rule bit_word_eqI)
  fix i assume i: "i < LENGTH(32)"
  have c: "32 + i - n = i + 32 - n" by simp
  show "bit (word_rotl n x) i = bit (push_bit n x OR drop_bit (32 - n) x) i"
  proof (cases "i < n")
    case True
    then show ?thesis using assms
      by (auto simp: bit_word_rotl_iff bit_or_iff bit_push_bit_iff bit_drop_bit_eq c possible_bit_def)
  next
    case False
    have e: "i + 32 - n = (i - n) + 32" using False by simp
    have m: "i < 32 \<Longrightarrow> (i + 32 - n) mod 32 = i - n" unfolding e by simp
    show ?thesis using assms False i
      by (auto simp: bit_word_rotl_iff bit_or_iff bit_push_bit_iff bit_drop_bit_eq c m possible_bit_def
          dest: bit_imp_le_length)
  qed
qed

lemma rotl_plus:
  assumes "0 < n" "n < 32"
  shows "word_rotl n (x::u32w) = push_bit n x + drop_bit (32 - n) x"
proof -
  have "push_bit n x + drop_bit (32 - n) x = push_bit n x OR drop_bit (32 - n) x"
    using assms by (intro disjunctive_add) (auto simp: bit_push_bit_iff bit_drop_bit_eq dest: bit_imp_le_length)
  then show ?thesis using rotl_or[OF assms] by simp
qed

lemma unat_push_bit32: "unat (push_bit n (x::u32w)) = unat x * 2 ^ n mod 2 ^ 32"
  by (subst unsigned_push_bit_eq) (simp add: take_bit_eq_mod push_bit_eq_mult)

lemma unat_drop_bit32: "unat (drop_bit n (x::u32w)) = unat x div 2 ^ n"
  using unsigned_less[of x, where 'a=nat]
  by (subst unsigned_drop_bit_eq) (simp add: drop_bit_eq_div take_bit_eq_mod)

lemma unat_rotl:
  "0 < n \<Longrightarrow> n < 32 \<Longrightarrow> unat (word_rotl n (x::u32w)) = rotl32 n (unat x)"
  by (simp only: rotl32_def rotl_plus unat_word_ariths(1) unat_push_bit32 unat_drop_bit32)
    (simp add: mod_add_left_eq)

lemma unat_add32: "unat (a + b :: u32w) = add32 (unat a) (unat b)"
  by (simp add: add32_def unat_word_ariths(1))

lemma unat_not32: "unat (NOT (x::u32w)) = not32 (unat x)"
proof -
  have s: "NOT x + x = - 1" by (simp add: not_eq_complement)
  have "(unat (NOT x) + unat x) mod 2 ^ 32 = 4294967295"
    using arg_cong[OF s, of unat]
    by (simp add: unat_word_ariths(1) unsigned_minus_1_eq_mask mask_eq_exp_minus_1)
  moreover have "unat (NOT x) < 2 ^ 32" "unat x < 2 ^ 32"
    using unsigned_less[of "NOT x", where 'a=nat] unsigned_less[of x, where 'a=nat] by simp_all
  ultimately show ?thesis by (simp add: not32_def mod_if split: if_splits)
qed

lemma unat_f: "unat (sha1_f_w t b c d) = sha1_f t (unat b) (unat c) (unat d)"
  by (simp add: sha1_f_w_def sha1_f_def unsigned_and_eq unsigned_or_eq unsigned_xor_eq unat_not32)

lemma unat_k: "unat (sha1_k_w t) = sha1_k t"
  by (simp add: sha1_k_w_def sha1_k_def)

lemmas unat_ops = unat_rotl unat_add32 unat_f unat_k

lemma unat5_rounds:
  "unat5 (sha1_rounds_w t ws h) = sha1_rounds t (map unat ws) (unat5 h)"
  by (induction t ws h rule: sha1_rounds_w.induct) (simp_all add: unat5_def unat_ops)

section \<open>Bytes to words and back\<close>

lemma unat_ucast_8_32 [simp]: "unat (ucast (b::u8w) :: u32w) = unat b"
  using unsigned_less[of b, where 'a=nat] by (simp add: unsigned_ucast_eq take_bit_nat_eq_self)

lemma mod32_step: "(a mod 2 ^ 32 * 256 + b) mod 2 ^ 32 = (a * 256 + b) mod (2 ^ 32::nat)"
  by (metis mod_add_left_eq mod_mult_left_eq)

lemma unat_be_word_step:
  "unat (w * 256 + ucast b :: u32w) = (unat w * 256 + unat (b::u8w)) mod 2 ^ 32"
  by (simp add: unat_word_ariths(1,2) mod_add_left_eq)

lemma be_word_foldl_mod:
  "foldl (\<lambda>w b. w * 256 + b) (a mod 2 ^ 32) bs mod 2 ^ 32 = foldl (\<lambda>w b. w * 256 + b) a bs mod (2 ^ 32::nat)"
proof (induction bs arbitrary: a)
  case (Cons b bs)
  have "(a mod 2 ^ 32 * 256 + b) mod 2 ^ 32 = (a * 256 + b) mod (2 ^ 32::nat)"
    by (rule mod32_step)
  then show ?case using Cons.IH[of "a mod 2 ^ 32 * 256 + b"] Cons.IH[of "a * 256 + b"] by simp
qed simp

lemma unat_be_word_w:
  "unat (foldl (\<lambda>w b. w * 256 + ucast b) w0 bs :: u32w) =
     foldl (\<lambda>w b. w * 256 + b) (unat w0) (map unat (bs :: u8w list)) mod 2 ^ 32"
proof (induction bs arbitrary: w0)
  case Nil
  then show ?case using unsigned_less[of w0, where 'a=nat] by simp
next
  case (Cons b bs)
  then show ?case
    using be_word_foldl_mod[of "unat w0 * 256 + unat b" "map unat bs"]
    by (simp add: unat_be_word_step)
qed

lemma be_word_bound:
  "(\<forall>b \<in> set bs. b < 256) \<Longrightarrow> foldl (\<lambda>w b. w * 256 + b) a bs < (a + 1) * 256 ^ length (bs::nat list)"
proof (induction bs arbitrary: a)
  case (Cons b bs)
  have "foldl (\<lambda>w b. w * 256 + b) (a * 256 + b) bs < (a * 256 + b + 1) * 256 ^ length bs"
    using Cons by simp
  also have "\<dots> \<le> (a + 1) * 256 * 256 ^ length bs"
    using Cons.prems by (intro mult_right_mono) simp_all
  finally show ?case by (simp add: algebra_simps)
qed simp

lemma unat_be_word [simp]:
  "length bs = 4 \<Longrightarrow> unat (be_word_w bs) = be_word (map unat bs)"
proof -
  assume l: "length bs = 4"
  have "be_word (map unat bs) < 2 ^ 32"
    using be_word_bound[of "map unat bs" 0] l unsigned_less[where 'a=nat and 'b=8]
    by (simp add: be_word_def)
  then show ?thesis by (simp add: be_word_w_def be_word_def unat_be_word_w)
qed

lemma unat_drop_bit: "unat (drop_bit k (w::'a::len word)) = unat w div 2 ^ k"
  using unsigned_less[of w, where 'a=nat]
  by (subst unsigned_drop_bit_eq) (simp add: drop_bit_eq_div take_bit_eq_mod)

lemma unat_ucast_8: "unat (ucast (v::'a::len word) :: u8w) = unat v mod 256"
proof -
  have "unat (ucast v :: u8w) = take_bit 8 (unat v)" by (simp only: unsigned_ucast_eq) simp
  then show ?thesis by (simp add: take_bit_eq_mod)
qed

lemma unat_ucast_drop_bit:
  "unat (ucast (drop_bit k (w::'a::len word)) :: u8w) = unat w div 2 ^ k mod 256"
  by (simp only: unat_ucast_8 unat_drop_bit)

lemma unat_word_be_bytes [simp]: "map unat (word_be_bytes_w w) = word_be_bytes (unat w)"
  by (simp add: word_be_bytes_w_def word_be_bytes_def unat_ucast_8 unat_drop_bit)

lemma byte_of_mod64:
  "k + 8 \<le> 64 \<Longrightarrow> (x mod 2 ^ 64) div 2 ^ k mod 256 = x div 2 ^ k mod (256::nat)"
proof -
  assume k: "k + 8 \<le> 64"
  have m: "min 8 (64 - k) = 8" using k by simp
  have "take_bit 8 (drop_bit k (take_bit 64 x)) = take_bit 8 (drop_bit k x)"
    by (simp add: drop_bit_take_bit take_bit_take_bit m)
  then show ?thesis by (simp add: take_bit_eq_mod drop_bit_eq_div)
qed

lemma unat_len_byte:
  "k + 8 \<le> 64 \<Longrightarrow> unat (ucast (drop_bit k (word_of_nat n :: 64 word)) :: u8w) = n div 2 ^ k mod 256"
  using byte_of_mod64[of k n] by (simp only: unat_ucast_8 unat_drop_bit unat_of_nat) simp

lemma unat_len_byte0: "unat (ucast (word_of_nat n :: 64 word) :: u8w) = n mod 256"
  using unat_len_byte[of 0 n] by simp

lemma unat_padding [simp]: "map unat (sha1_padding_w l) = sha1_padding l"
  by (simp add: sha1_padding_w_def sha1_padding_def u64_be_bytes_def len_be_bytes_def unat_len_byte unat_len_byte0
      del: of_nat_mult)

section \<open>The message schedule\<close>

lemma length_schedule_foldl:
  "length (foldl (\<lambda>ws t. ws @ [f ws t]) ws [k..<n]) = length ws + (n - k)"
  by (induction n) (auto simp: Suc_diff_le)

lemma unat_schedule_foldl:
  assumes "length (ws::u32w list) = k" and "16 \<le> k"
  shows "map unat (foldl (\<lambda>ws t. ws @ [word_rotl 1 (ws ! (t - 3) XOR ws ! (t - 8) XOR ws ! (t - 14) XOR ws ! (t - 16))]) ws [k..<n])
       = foldl (\<lambda>ws t. ws @ [rotl32 1 (ws ! (t - 3) XOR ws ! (t - 8) XOR ws ! (t - 14) XOR ws ! (t - 16))]) (map unat ws) [k..<n]"
proof (induction n)
  case (Suc n)
  show ?case
  proof (cases "k \<le> n")
    case True
    let ?ws = "foldl (\<lambda>ws t. ws @ [word_rotl 1 (ws ! (t - 3) XOR ws ! (t - 8) XOR ws ! (t - 14) XOR ws ! (t - 16))]) ws [k..<n]"
    have l: "length ?ws = n" using assms True by (simp add: length_schedule_foldl)
    have i: "n - 3 < n" "n - 8 < n" "n - 14 < n" "n - 16 < n" using assms True by simp_all
    show ?thesis
      using True Suc.IH[symmetric] l i
      by (simp add: unat_rotl unsigned_xor_eq nth_map)
  qed simp
qed simp

lemma unat_schedule:
  "length (ws::u32w list) = 16 \<Longrightarrow> map unat (sha1_schedule_w ws) = sha1_schedule (map unat ws)"
  unfolding sha1_schedule_w_def sha1_schedule_def by (rule unat_schedule_foldl) simp_all

section \<open>Compression and the whole digest\<close>

lemma unat5_compress:
  assumes "length blk = 64"
  shows "unat5 (sha1_compress_w h blk) = sha1_compress (unat5 h) (map unat blk)"
proof -
  have c4: "\<forall>c \<in> set (chunks 4 blk). length c = 4"
    using chunks_length[of 4 blk] assms by simp
  have w: "map be_word (chunks 4 (map unat blk)) = map unat (map be_word_w (chunks 4 blk))"
    using c4 by (simp add: chunks_map)
  have l: "length (map be_word_w (chunks 4 blk)) = 16"
    using assms by (simp add: length_chunks)
  obtain h0 h1 h2 h3 h4 where h: "h = (h0, h1, h2, h3, h4)" by (cases h) auto
  obtain a b c d e where r: "sha1_rounds_w 0 (sha1_schedule_w (map be_word_w (chunks 4 blk))) h = (a, b, c, d, e)"
    by (cases "sha1_rounds_w 0 (sha1_schedule_w (map be_word_w (chunks 4 blk))) h") auto
  have "sha1_rounds 0 (sha1_schedule (map be_word (chunks 4 (map unat blk)))) (unat5 h) =
          (unat a, unat b, unat c, unat d, unat e)"
    using unat5_rounds[of 0 "sha1_schedule_w (map be_word_w (chunks 4 blk))" h] r
    by (simp add: w unat_schedule[OF l] unat5_def)
  then show ?thesis
    using r by (simp add: sha1_compress_w_def sha1_compress_def h unat5_def unat_add32)
qed

lemma unat5_foldl:
  "\<forall>blk \<in> set bs. length blk = 64 \<Longrightarrow>
   unat5 (foldl sha1_compress_w h bs) = foldl sha1_compress (unat5 h) (map (map unat) bs)"
  by (induction bs arbitrary: h) (simp_all add: unat5_compress)

lemma length_padding_w: "length (sha1_padding_w l) = length (sha1_padding l)"
  by (metis length_map unat_padding)

lemma padded_w_blocks: "length (m @ sha1_padding_w (length m)) mod 64 = 0"
  using sha1_padding_length[of "length m"] by (simp add: length_padding_w)

lemma sha1_pad_unat: "sha1_pad (map unat m) = map unat (m @ sha1_padding_w (length m))"
  by (simp add: sha1_pad_def)

lemma unat5_iv: "unat5 sha1_iv_w = sha1_iv"
  by (simp add: unat5_def sha1_iv_w_def sha1_iv_def)

lemma unat5_digest: "map unat (case h of (a, b, c, d, e) \<Rightarrow> concat (map word_be_bytes_w [a, b, c, d, e])) =
    sha1_digest_bytes (unat5 h)"
  by (cases h) (simp add: unat5_def sha1_digest_bytes_def map_concat)

lemma padded_w_chunks: "\<forall>blk \<in> set (chunks 64 (m @ sha1_padding_w (length m))). length blk = 64"
  by (intro ballI chunks_length[OF _ padded_w_blocks]) simp_all

text \<open>The refinement: the crate's word-level SHA-1 and the natural-number model agree on
  every message, byte for byte.\<close>

lemma sha1_w_refines: "map unat (sha1_w m) = sha1 (map unat m)"
proof -
  have "unat5 (foldl sha1_compress_w sha1_iv_w (chunks 64 (m @ sha1_padding_w (length m)))) =
          foldl sha1_compress sha1_iv (chunks 64 (sha1_pad (map unat m)))"
    by (simp only: unat5_foldl[OF padded_w_chunks] sha1_pad_unat chunks_map unat5_iv)
  then show ?thesis
    by (simp only: sha1_w_def sha1_def unat5_digest)
qed

end
