(* ===== verification/Spec2Isabelle.thy ===== *)
theory Spec2Isabelle
  imports Contract Page Sha1_Word
begin

text \<open>
  A verification development for rocket-tungstenite, the bridge that upgrades an
  HTTP request served by Rocket into a WebSocket stream (src/src/lib.rs) and its echo
  example (src/examples/echo.rs).

  \<^bold>\<open>The program.\<close> A route handler calls \<open>RocketWebsocket::new\<close> (or
  \<open>with_config\<close>), which creates a tokio one-shot channel and returns the responder,
  holding the sender, together with the receiver. Rocket later calls the responder's
  \<open>respond_to\<close>: it checks the \<open>Sec-WebSocket-Key\<close> and \<open>Sec-WebSocket-Version\<close>
  headers, answers 400 when they are wrong, and otherwise builds the 101 response with
  the accept token of \<open>convert_key\<close> and registers itself as the response's upgrade
  handler. After sending the response Rocket calls \<open>on_upgrade\<close> with the raw
  connection; it wraps the connection in a server-role \<open>WebSocketStream\<close> and sends it
  through the channel to whoever holds the receiver.

  \<^bold>\<open>Theories and what they model.\<close>
  \<^item> \<open>Prelude\<close>: the named collections \<open>kernel_eval\<close> and \<open>width_bounds\<close>, bytes and
    32-bit words as natural numbers below their width, \<open>chunks\<close> with its lemmas, bounds
    of the bitwise operations.
  \<^item> \<open>Sha1\<close> (spec-modelled: the \<open>sha1\<close> crate, RFC 3174): the compression
    function over words below \<open>2^32\<close>, the reference \<open>sha1\<close>, and the streaming hasher
    \<open>sha1_default\<close>/\<open>sha1_update\<close>/\<open>sha1_finalize\<close> the code calls; \<open>absorbed\<close> is the
    invariant that relates the hasher to the bytes it has been fed.
  \<^item> \<open>Sha1_Word\<close> (spec-modelled: the crate's arithmetic): the same SHA-1 over \<open>8 word\<close>
    bytes, \<open>32 word\<close> state with wrapping \<open>+\<close> and \<open>word_rotl\<close>, and the \<open>64 word\<close> bit
    count of the padding; \<open>sha1_w_refines\<close> proves it equal to the natural-number model
    under \<open>unat\<close>, from one lemma per \<open>u32\<close> operation (\<open>unat_rotl\<close>, \<open>unat_add32\<close>,
    \<open>unat_not32\<close>) up through the schedule, the rounds and the blocks. It validates
    the natural-number model against the crate's arithmetic; no property rests on it.
  \<^item> \<open>Base64\<close> (spec-modelled: the \<open>base64\<close> crate's padded standard encoding) and its
    canonical decoder, inverse of the encoder in both directions.
  \<^item> \<open>Accept_Key\<close>: \<open>convert_key\<close> and \<open>ws_guid\<close> (lib.rs, lines 41--50).
  \<^item> \<open>Http\<close> (spec-modelled: Rocket): header maps with case-insensitive names,
    \<open>get_one\<close>, the status, requests, and the response builder with its upgrade slot.
  \<^item> \<open>Oneshot\<close> (spec-modelled: \<open>tokio::sync::oneshot\<close>): the channel's state and its
    four operations.
  \<^item> \<open>Responder\<close>: the struct \<open>RocketWebsocket\<close> (lib.rs 14--17), \<open>respond_to\<close>
    (20--37) with both early returns and the drop of the responder they imply,
    \<open>on_upgrade\<close> (54--57), \<open>new\<close> and \<open>with_config\<close> (65--79). The channels live in a
    store of the runtime indexed by channel number; \<open>Sender c\<close> and \<open>Receiver c\<close> name
    theirs. \<open>from_raw_socket\<close> (tungstenite) is an opaque constructor that records the
    connection, the role and the configuration.
  \<^item> \<open>Upgrade\<close>: the program at work (echo.rs 12--26 with Rocket around it) as the step
    function \<open>sys_step\<close> on events \<open>Handle\<close> (the route handler calls \<open>new\<close>),
    \<open>Respond\<close> (Rocket calls \<open>respond_to\<close>), \<open>Transmit\<close> (Rocket writes the response),
    \<open>Upgrade\<close> (Rocket calls \<open>on_upgrade\<close>), \<open>HostDrop\<close> (Rocket drops the responder),
    \<open>Poll\<close> (the spawned task's \<open>rx.await\<close>) and \<open>DropRx\<close>, each on one session, and
    the inductive set \<open>reachable\<close> of the states any interleaving of them reaches. The
    invariant \<open>session_ok\<close> (channel flags, host phase, wire and results of a session)
    holds in every reachable state (\<open>reachable_inv\<close>, by rule induction, with the
    frame lemma \<open>step_frame\<close> for the sessions an event does not touch).
  \<^item> \<open>Echo\<close>: the example's spawned task (echo.rs 16--24): \<open>echo_keep\<close> is the
    \<open>take_while\<close> predicate with its \<open>unwrap\<close>, \<open>forward_echo\<close> the \<open>forward\<close> loop
    into the outgoing half, \<open>echo_task\<close> the task with \<open>expect\<close>; a panic is a value
    \<open>Inl msg\<close>. The incoming half is the list of items the peer produces and the
    outgoing half a sink whose send and close results are parameters. Also the index
    page's text (29--65) and the routes \<open>main\<close> mounts (67--70), as constants of
    the model that no property is stated about.
  \<^item> \<open>Page\<close>: the script of the index page (echo.rs 41--62) in the browser: the
    page's elements as the record \<open>page\<close>, the four handlers \<open>ws_onopen\<close>,
    \<open>ws_onclose\<close>, \<open>ws_onmessage\<close> and \<open>send_onclick\<close>, and the browser's WebSocket
    (spec-modelled from the WHATWG interface: \<open>readyState\<close>, \<open>ws_send\<close>, the message
    and close events) as the step function \<open>page_step\<close> on browser events; an
    exception out of a handler is recorded in \<open>uncaught\<close>.
  \<^item> \<open>Contract\<close>: the specification's contract for one upgrade attempt (spec.md
    sections 3, 4.4, 6) as the abstract machine \<open>spec_step\<close> on attempts (configuration,
    status written, hand-off channel, consumer), and the
    abstraction \<open>session_abs\<close> of a session of \<open>Upgrade\<close>; \<open>step_target_refines\<close>
    matches each event with a move of the contract, event by event.
  \<^item> This theory: example requests and runs, the properties of the whole system and
    the witnesses that apply every property with hypotheses to a concrete run.

  \<^bold>\<open>What the lemmas show.\<close>
  \<^item> \<open>convert_key\<close>: it is base64 of SHA-1 of key and GUID (C1); its token has 28
    characters that decode to the digest (C2); it is 27 base64 characters and one
    \<open>=\<close> (C19); on the RFC 6455 example it returns the RFC's token (C3), evaluated by
    \<open>simp\<close> in the kernel (two SHA-1 blocks, about two minutes each).
  \<^item> The system, over every interleaving of any number of sessions: a stream is
    received only after the 101 status, and it is the connection in the server role with
    the handler's configuration (C4). The awaiting task's poll resolves: with the stream
    after a successful callback (C5), and with \<open>RecvError\<close> after a rejection or a host
    drop (C6). A dropped receiver turns the callback's send into the hung-up I/O error
    (C7). Also the end-to-end run (C8) and the rejected run (C9).
  \<^item> \<open>respond_to\<close> and \<open>on_upgrade\<close> alone: each branch of the code (C10--C14); a
    repeated key header is not rejected, and the first one is used (C20).
  \<^item> The echo task: it echoes the text messages up to the first other message
    (C15) and only ever sends a text prefix of what it received (C16). It panics in
    \<open>unwrap\<close> on a read error (C17) and in \<open>expect\<close> on a send error (C18).
  \<^item> The page: its status always matches its socket and no line outlives the
    connection (C21). A message sent before the socket opens throws and is not sent (C22);
    one sent after it closed is silently lost (C23). The example as a user sees it: after
    the handshake, every message typed on the page is echoed and shown, newest first
    (C24).
  \<^item> The program refines the contract of the specification: every event is a move of
    the contract, so every reachable session is a reachable attempt of it (C25).

  \<^bold>\<open>Bounds and fuel.\<close> No loop of the modelled code needs fuel or a termination
  argument beyond structural recursion: \<open>sys_run\<close>, \<open>page_run\<close>, the hasher and the echo
  loop \<open>forward_echo\<close> recurse on finite lists (the peer's items are a finite list, so a
  run of the task that never ends is not modelled). Words of SHA-1 are natural numbers
  with \<open>mod 2^32\<close> written out at every addition and rotation (\<open>Sha1\<close>), and the same
  computation on \<open>32 word\<close> (\<open>Sha1_Word\<close>) shows that this wrap-around is exactly the
  crate's \<open>u32\<close> arithmetic, including the \<open>u64\<close> bit count of the padding.

  \<^bold>\<open>Not modelled.\<close> Four collaborators are only partly modelled, by design.
  Rocket's routing and connection I/O are outside the program (spec.md section 1), so
  Rocket is modelled only as far as \<open>respond_to\<close> and the route table use it.
  tungstenite's framing is out of scope (spec.md section 1): the stream is the opaque
  result of \<open>from_raw_socket\<close>, and its halves are what the echo task reads and
  writes. Also not modelled: the async executor (the
  interleavings of the steps stand for it), the rendering of the index page and the
  parts of its script that only read or write the DOM once (the element lookups),
  Rocket's launch in \<open>main\<close> beyond the route table. The page and the echo task are
  composed by passing what one sends to the other as a list, not by a model of the
  network between them.
\<close>

section \<open>An example scenario\<close>

definition ex_request :: request where
  "ex_request = request_of [(''Host'', ''localhost:8000''), (''Upgrade'', ''websocket''),
     (''Connection'', ''Upgrade''), (''Sec-WebSocket-Key'', ''dGhlIHNhbXBsZSBub25jZQ==''),
     (''Sec-WebSocket-Version'', ''13'')]"

definition ex_request_no_version :: request where
  "ex_request_no_version = request_of [(''Host'', ''localhost:8000''),
     (''Sec-WebSocket-Key'', ''dGhlIHNhbXBsZSBub25jZQ=='')]"

definition ex_responder :: rocket_websocket where
  "ex_responder = \<lparr>inner = Sender 0, config = None\<rparr>"

definition ex_runtime :: "nat runtime" where
  "ex_runtime = \<lparr>chans = (\<lambda>_. oneshot_channel), next_chan = 1\<rparr>"

definition ex_sink :: sink where
  "ex_sink = \<lparr>sent = [], send_result = (\<lambda>_. None), close_result = None, sink_closed = False\<rparr>"

definition ex_sink_full :: sink where
  "ex_sink_full =
     \<lparr>sent = [], send_result = (\<lambda>n. if n = 1 then Some SendQueueFull else None),
      close_result = None, sink_closed = False\<rparr>"

definition run_from_init :: "nat event list \<Rightarrow> nat sys" where
  "run_from_init es = the (sys_run sys_init es)"

section \<open>Properties of the whole upgrade\<close>

lemmas sys_eval = run_from_init_def sys_init_def handler_new_def websocket_new_def alloc_channel_def
  respond_to_def request_of_def get_one_def uncased_eq_def ascii_lower_def Let_def
  response_build_def set_status_def set_header_def sized_body_def set_upgrade_def
  drop_responder_def drop_sender_def update_chan_def rx_waiting_def recv_poll_def chan_of_def
  set_chan_def on_upgrade_def from_raw_socket_def drop_receiver_def
  oneshot_channel_def oneshot_send_def oneshot_drop_tx_def oneshot_poll_def oneshot_drop_rx_def

lemma run_reachable: "sys_run sys_init es \<noteq> None \<Longrightarrow> reachable (run_from_init es)"
  using reachable_run[OF _ reachable.init, of es] by (auto simp: run_from_init_def)

text \<open>C4: a stream is never delivered before the 101 response: whenever the awaiting task
  has received a stream, the host has written exactly the status 101 on that session, the
  callback has run with some connection and returned \<open>Ok\<close>, and the stream is that
  connection in the server role with the configuration the handler chose.\<close>

theorem stream_after_switching_protocols:
  "reachable s \<Longrightarrow> Inr st \<in> set (received s c) \<Longrightarrow>
   wire s c = [SwitchingProtocols] \<and>
   (\<exists>conn. phase s c = Some (Upgraded conn (Inr ())) \<and> st = WebSocketStream conn Server (cfg s c))"
  by (rule received_stream_phase[OF reachable_session])

text \<open>C5: once the callback has sent the stream, the awaiting task's next poll is ready
  with that stream; it does not stay pending.\<close>

theorem upgraded_delivers:
  assumes "reachable s" and "rx_waiting s c"
    and "phase s c = Some (Upgraded conn (Inr ()))"
  shows "fst (recv_poll (Receiver c) (rt s)) = Ready (Inr (WebSocketStream conn Server (cfg s c)))"
proof -
  have ok: "session_ok s c" using assms(1) by (rule reachable_session)
  have c: "c < next_chan (rt s)" using assms(2) by (simp add: rx_waiting_def)
  have "complete (chan_of (rt s) c) \<and>
        slot (chan_of (rt s) c) = Some (WebSocketStream conn Server (cfg s c))"
    using assms session_phase[OF ok c] by (auto simp: rx_waiting_def)
  then show ?thesis
    by (simp add: recv_poll_def oneshot_poll_def)
qed

text \<open>C6: hang-up instead of a hang. When the request was rejected, or the host dropped
  the responder without calling the callback, the awaiting task's next poll is ready
  with \<open>RecvError\<close>; it never waits forever.\<close>

theorem hang_up_resolves:
  assumes "reachable s" and "rx_waiting s c"
    and "phase s c = Some (Rejected st) \<or> phase s c = Some Abandoned"
  shows "fst (recv_poll (Receiver c) (rt s)) = Ready (Inl RecvError)"
proof -
  have ok: "session_ok s c" using assms(1) by (rule reachable_session)
  have c: "c < next_chan (rt s)" using assms(2) by (simp add: rx_waiting_def)
  have "complete (chan_of (rt s) c) \<and> slot (chan_of (rt s) c) = None"
    using assms(3) session_phase[OF ok c] by auto
  then show ?thesis
    by (simp add: recv_poll_def oneshot_poll_def)
qed

text \<open>C7: a consumer that went away does not break the host. If the receiver has been
  dropped when the host runs the callback, the callback still runs to completion, reports
  the hung-up I/O error to the host, and nothing is delivered.\<close>

theorem dropped_receiver_upgrade:
  assumes "reachable s" and "phase s c = Some (Transmitted h)"
    and "\<not> rx_alive (chan_of (rt s) c)"
  shows "\<exists>s'. sys_step s (Upgrade c conn) = Some s' \<and>
           phase s' c = Some (Upgraded conn (Inl hung_up)) \<and> received s' c = received s c"
proof -
  have ok: "session_ok s c" using assms(1) by (rule reachable_session)
  have c: "c < next_chan (rt s)" using ok assms(2) by (rule session_allocated)
  have "inner h = Sender c" and "closed (chan_of (rt s) c)"
    using session_phase[OF ok c assms(2)] assms(3) by (auto simp: chan_ok_def)
  then show ?thesis
    using assms(2) by (simp add: on_upgrade_def oneshot_send_def)
qed

lemma upgrade_run_ok:
  assumes "reachable s"
    and "get_one (req_headers req) ''Sec-WebSocket-Key'' = Some key"
    and "get_one (req_headers req) ''Sec-WebSocket-Version'' = Some ''13''"
    and "next_chan (rt s) = c"
  shows "\<exists>s'. sys_run s [Handle k, Respond c req, Transmit c, Upgrade c conn, Poll c] = Some s' \<and>
           received s' c = [Inr (WebSocketStream conn Server k)] \<and> wire s' c = [SwitchingProtocols]"
  using assms fresh_session[OF assms(1)]
  by (cases k) (simp_all add: handler_new_def websocket_new_def websocket_with_config_def
      alloc_channel_def respond_to_def version_check_iff Let_def response_build_def set_status_def
      set_header_def sized_body_def set_upgrade_def on_upgrade_def rx_waiting_def recv_poll_def
      chan_of_def set_chan_def from_raw_socket_def oneshot_channel_def oneshot_send_def
      oneshot_poll_def)

text \<open>C8: end to end. For a request with a key and version \<open>13\<close>, a fresh session runs
  through handler, \<open>respond_to\<close>, the 101 response, the callback with connection \<open>conn\<close>
  and one poll, and the awaiting task holds the stream that wraps \<open>conn\<close> in the server
  role with the handler's configuration.\<close>

theorem upgrade_end_to_end:
  assumes "reachable s"
    and "get_one (req_headers req) ''Sec-WebSocket-Key'' = Some key"
    and "get_one (req_headers req) ''Sec-WebSocket-Version'' = Some ''13''"
    and "next_chan (rt s) = c"
  shows "\<exists>s'. sys_run s [Handle k, Respond c req, Transmit c, Upgrade c conn, Poll c] = Some s' \<and>
           received s' c = [Inr (WebSocketStream conn Server k)] \<and> wire s' c = [SwitchingProtocols]"
  using assms by (rule upgrade_run_ok)

text \<open>C9: a rejected request still created a channel. The handler creates the responder
  and its channel before Rocket calls \<open>respond_to\<close>; when the request has no key or a
  version other than \<open>13\<close>, the host writes 400, and the task awaiting the receiver gets
  \<open>RecvError\<close> on its first poll.\<close>

theorem upgrade_rejected_hangs_up:
  assumes "reachable s"
    and "get_one (req_headers req) ''Sec-WebSocket-Key'' = None \<or>
         get_one (req_headers req) ''Sec-WebSocket-Version'' \<noteq> Some ''13''"
    and "next_chan (rt s) = c"
  shows "\<exists>s'. sys_run s [Handle k, Respond c req, Poll c] = Some s' \<and>
           wire s' c = [BadRequest] \<and> received s' c = [Inl RecvError]"
  using assms fresh_session[OF assms(1)]
  by (cases k) (auto simp: handler_new_def websocket_new_def websocket_with_config_def
      alloc_channel_def respond_to_def version_check_iff drop_responder_def drop_sender_def
      update_chan_def rx_waiting_def recv_poll_def chan_of_def set_chan_def
      oneshot_channel_def oneshot_drop_tx_def oneshot_poll_def split: option.splits)

lemma takeWhile_texts [simp]: "takeWhile is_text (map Text ts) = map Text ts"
  by (induction ts) simp_all

text \<open>C24: the example as a user sees it. After a valid handshake, the callback and
  the awaiting task's poll, the page opens its socket and the user types and sends
  each of \<open>ts\<close>; the echo task, given what the page sent, echoes all of it and ends
  without panicking, and the page, given what the task sent, shows every message,
  newest first, still connected.\<close>

theorem echo_page_conversation:
  assumes "reachable s"
    and "get_one (req_headers req) ''Sec-WebSocket-Key'' = Some key"
    and "get_one (req_headers req) ''Sec-WebSocket-Version'' = Some ''13''"
    and "next_chan (rt s) = c"
    and "\<forall>n. send_result w n = None" and "close_result w = None" and "sent w = []"
  shows "\<exists>s' r p1 w' p2.
           sys_run s [Handle None, Respond c req, Transmit c, Upgrade c conn, Poll c] = Some s' \<and>
           received s' c = [r] \<and>
           page_run page_init (WsOpen # type_and_send ts) = Some p1 \<and>
           echo_task r (map (Inr \<circ> Text) (ws_out p1)) w = (Inr (), w') \<and>
           page_run p1 (map WsFrame (sent w')) = Some p2 \<and>
           lines_text p2 = rev ts \<and> status_text p2 = ''Connected :)''"
proof -
  obtain s' where run: "sys_run s [Handle None, Respond c req, Transmit c, Upgrade c conn, Poll c] = Some s'"
    and r: "received s' c = [Inr (WebSocketStream conn Server None)]"
    using upgrade_run_ok[OF assms(1-4), of None conn] by blast
  define p0 where "p0 = ws_onopen (page_init\<lparr>ready := Open\<rparr>)"
  define p1 where "p1 = p0\<lparr>text_value := (if ts = [] then text_value p0 else []), ws_out := ws_out p0 @ ts\<rparr>"
  have o: "ready p0 = Open" "ws_out p0 = []" "lines_text p0 = []"
    by (simp_all add: p0_def ws_onopen_def page_init_def)
  have page1: "page_run page_init (WsOpen # type_and_send ts) = Some p1"
    using type_and_send_open[OF o(1), of ts] by (simp add: p0_def p1_def page_init_def)
  have out: "ws_out p1 = ts" using o by (simp add: p1_def)
  define w' where "w' = w\<lparr>sent := map Text ts, sink_closed := True\<rparr>"
  have task: "echo_task (Inr (WebSocketStream conn Server None)) (map (Inr \<circ> Text) ts) w = (Inr (), w')"
    using forward_echo_texts[OF assms(5,6), of "map Text ts"] assms(7)
    by (simp add: echo_task_def expect_def w'_def)
  have "page_run p1 (map WsFrame (sent w')) = Some (p1\<lparr>lines_text := rev ts @ lines_text p1\<rparr>)"
    using texts_shown[of p1 ts] o by (simp add: w'_def p1_def)
  moreover have "lines_text p1 = []" "status_text p1 = ''Connected :)''"
    using o by (simp_all add: p1_def p0_def ws_onopen_def)
  ultimately show ?thesis using run r page1 out task by fastforce
qed

section \<open>Witnesses\<close>

text \<open>Each theorem with hypotheses, applied where its hypotheses hold: the example runs
  are evaluated by \<open>simp\<close> in the kernel.\<close>

theorem stream_after_switching_protocols_witness:
  "reachable (run_from_init [Handle None, Respond 0 ex_request, Transmit 0, Upgrade 0 7, Poll 0]) \<and>
   Inr (WebSocketStream 7 Server None)
     \<in> set (received (run_from_init [Handle None, Respond 0 ex_request, Transmit 0, Upgrade 0 7, Poll 0]) 0) \<and>
   wire (run_from_init [Handle None, Respond 0 ex_request, Transmit 0, Upgrade 0 7, Poll 0]) 0 = [SwitchingProtocols]"
proof -
  have r: "reachable (run_from_init [Handle None, Respond 0 ex_request, Transmit 0, Upgrade 0 7, Poll 0])"
    by (rule run_reachable) (simp add: sys_eval ex_request_def)
  have i: "Inr (WebSocketStream 7 Server None)
     \<in> set (received (run_from_init [Handle None, Respond 0 ex_request, Transmit 0, Upgrade 0 7, Poll 0]) 0)"
    by (simp add: sys_eval ex_request_def)
  show ?thesis using stream_after_switching_protocols[OF r i] r i by simp
qed

theorem upgraded_delivers_witness:
  "reachable (run_from_init [Handle None, Respond 0 ex_request, Transmit 0, Upgrade 0 7]) \<and>
   rx_waiting (run_from_init [Handle None, Respond 0 ex_request, Transmit 0, Upgrade 0 7]) 0 \<and>
   phase (run_from_init [Handle None, Respond 0 ex_request, Transmit 0, Upgrade 0 7]) 0 = Some (Upgraded 7 (Inr ())) \<and>
   fst (recv_poll (Receiver 0) (rt (run_from_init [Handle None, Respond 0 ex_request, Transmit 0, Upgrade 0 7])))
     = Ready (Inr (WebSocketStream 7 Server None))"
proof -
  have r: "reachable (run_from_init [Handle None, Respond 0 ex_request, Transmit 0, Upgrade 0 7])"
    by (rule run_reachable) (simp add: sys_eval ex_request_def)
  have w: "rx_waiting (run_from_init [Handle None, Respond 0 ex_request, Transmit 0, Upgrade 0 7]) 0"
    by (simp add: sys_eval ex_request_def)
  have p: "phase (run_from_init [Handle None, Respond 0 ex_request, Transmit 0, Upgrade 0 7]) 0 = Some (Upgraded 7 (Inr ()))"
    by (simp add: sys_eval ex_request_def)
  have k: "cfg (run_from_init [Handle None, Respond 0 ex_request, Transmit 0, Upgrade 0 7]) 0 = None"
    by (simp add: sys_eval ex_request_def)
  show ?thesis using upgraded_delivers[OF r w p] r w p k by simp
qed

theorem hang_up_resolves_witness:
  "reachable (run_from_init [Handle None, Respond 0 ex_request_no_version]) \<and>
   rx_waiting (run_from_init [Handle None, Respond 0 ex_request_no_version]) 0 \<and>
   phase (run_from_init [Handle None, Respond 0 ex_request_no_version]) 0 = Some (Rejected BadRequest) \<and>
   fst (recv_poll (Receiver 0) (rt (run_from_init [Handle None, Respond 0 ex_request_no_version])))
     = Ready (Inl RecvError)"
proof -
  have r: "reachable (run_from_init [Handle None, Respond 0 ex_request_no_version])"
    by (rule run_reachable) (simp add: sys_eval ex_request_no_version_def)
  have w: "rx_waiting (run_from_init [Handle None, Respond 0 ex_request_no_version]) 0"
    by (simp add: sys_eval ex_request_no_version_def)
  have p: "phase (run_from_init [Handle None, Respond 0 ex_request_no_version]) 0 = Some (Rejected BadRequest)"
    by (simp add: sys_eval ex_request_no_version_def)
  show ?thesis using hang_up_resolves[OF r w] r w p by simp
qed

theorem dropped_receiver_upgrade_witness:
  "reachable (run_from_init [Handle None, Respond 0 ex_request, Transmit 0, DropRx 0]) \<and>
   phase (run_from_init [Handle None, Respond 0 ex_request, Transmit 0, DropRx 0]) 0
     = Some (Transmitted ex_responder) \<and>
   \<not> rx_alive (chan_of (rt (run_from_init [Handle None, Respond 0 ex_request, Transmit 0, DropRx 0])) 0) \<and>
   (\<exists>s'. sys_step (run_from_init [Handle None, Respond 0 ex_request, Transmit 0, DropRx 0]) (Upgrade 0 7) = Some s' \<and>
      phase s' 0 = Some (Upgraded 7 (Inl hung_up)))"
proof -
  have r: "reachable (run_from_init [Handle None, Respond 0 ex_request, Transmit 0, DropRx 0])"
    by (rule run_reachable) (simp add: sys_eval ex_request_def)
  have p: "phase (run_from_init [Handle None, Respond 0 ex_request, Transmit 0, DropRx 0]) 0
     = Some (Transmitted ex_responder)"
    by (simp add: sys_eval ex_request_def ex_responder_def)
  have d: "\<not> rx_alive (chan_of (rt (run_from_init [Handle None, Respond 0 ex_request, Transmit 0, DropRx 0])) 0)"
    by (simp add: sys_eval ex_request_def)
  show ?thesis using dropped_receiver_upgrade[OF r p d, of 7] r p d by blast
qed

theorem upgrade_end_to_end_witness:
  "\<exists>s'. sys_run (sys_init :: nat sys) [Handle None, Respond 0 ex_request, Transmit 0, Upgrade 0 7, Poll 0]
     = Some s' \<and> received s' 0 = [Inr (WebSocketStream 7 Server None)] \<and> wire s' 0 = [SwitchingProtocols]"
proof -
  have k: "get_one (req_headers ex_request) ''Sec-WebSocket-Key'' = Some ''dGhlIHNhbXBsZSBub25jZQ==''"
    and v: "get_one (req_headers ex_request) ''Sec-WebSocket-Version'' = Some ''13''"
    by (simp_all add: ex_request_def request_of_def get_one_def uncased_eq_def ascii_lower_def)
  have n: "next_chan (rt (sys_init :: nat sys)) = 0" by (simp add: sys_init_def)
  show ?thesis using upgrade_end_to_end[OF reachable.init k v n, of None 7] by simp
qed

theorem upgrade_rejected_hangs_up_witness:
  "\<exists>s'. sys_run (sys_init :: nat sys) [Handle None, Respond 0 ex_request_no_version, Poll 0] = Some s' \<and>
     wire s' 0 = [BadRequest] \<and> received s' 0 = [Inl RecvError]"
proof -
  have v: "get_one (req_headers ex_request_no_version) ''Sec-WebSocket-Key'' = None \<or>
           get_one (req_headers ex_request_no_version) ''Sec-WebSocket-Version'' \<noteq> Some ''13''"
    by (simp add: ex_request_no_version_def request_of_def get_one_def uncased_eq_def ascii_lower_def)
  have n: "next_chan (rt (sys_init :: nat sys)) = 0" by (simp add: sys_init_def)
  show ?thesis using upgrade_rejected_hangs_up[OF reachable.init v n, of None] by simp
qed

theorem respond_to_no_key_witness:
  "get_one (req_headers (request_of [(''Sec-WebSocket-Version'', ''13'')])) ''Sec-WebSocket-Key'' = None \<and>
   respond_to ex_responder (request_of [(''Sec-WebSocket-Version'', ''13'')]) ex_runtime
     = (Inl BadRequest, drop_responder ex_responder ex_runtime)"
proof -
  have k: "get_one (req_headers (request_of [(''Sec-WebSocket-Version'', ''13'')])) ''Sec-WebSocket-Key'' = None"
    by (simp add: request_of_def get_one_def uncased_eq_def ascii_lower_def)
  show ?thesis using respond_to_no_key[OF k] k by simp
qed

theorem respond_to_bad_version_witness:
  "get_one (req_headers ex_request_no_version) ''Sec-WebSocket-Version'' = None \<and>
   respond_to ex_responder ex_request_no_version ex_runtime
     = (Inl BadRequest, drop_responder ex_responder ex_runtime)"
proof -
  have v: "get_one (req_headers ex_request_no_version) ''Sec-WebSocket-Version'' = None"
    by (simp add: ex_request_no_version_def request_of_def get_one_def uncased_eq_def ascii_lower_def)
  show ?thesis using respond_to_bad_version[of ex_request_no_version] v by simp
qed

theorem respond_to_accept_witness:
  "respond_to ex_responder ex_request ex_runtime =
     (Inr \<lparr>resp_status = SwitchingProtocols,
           resp_headers = [(''connection'', [''upgrade'']), (''upgrade'', [''websocket'']),
                           (''Sec-WebSocket-Accept'', [convert_key (as_bytes ''dGhlIHNhbXBsZSBub25jZQ=='')])],
           resp_body = Some ''Switching protocols to WebSocket'',
           resp_upgrade = Some ex_responder\<rparr>, ex_runtime)"
proof -
  have k: "get_one (req_headers ex_request) ''Sec-WebSocket-Key'' = Some ''dGhlIHNhbXBsZSBub25jZQ==''"
    and v: "get_one (req_headers ex_request) ''Sec-WebSocket-Version'' = Some ''13''"
    by (simp_all add: ex_request_def request_of_def get_one_def uncased_eq_def ascii_lower_def)
  show ?thesis by (rule respond_to_accept[OF k v])
qed

theorem on_upgrade_send_witness:
  "on_upgrade ex_responder (7::nat) ex_runtime =
     (Inr (), set_chan ex_runtime 0 ((chan_of ex_runtime 0)\<lparr>slot := Some (WebSocketStream 7 Server None),
                                           complete := True, tx_alive := False\<rparr>))"
proof -
  have i: "inner ex_responder = Sender 0" by (simp add: ex_responder_def)
  have o: "\<not> closed (chan_of ex_runtime 0)" by (simp add: ex_runtime_def chan_of_def oneshot_channel_def)
  show ?thesis using on_upgrade_send[OF i o, of 7] by (simp add: ex_responder_def)
qed

theorem on_upgrade_hung_up_witness:
  "on_upgrade ex_responder (7::nat) (set_chan ex_runtime 0 (oneshot_drop_rx oneshot_channel)) =
     (Inl hung_up, set_chan (set_chan ex_runtime 0 (oneshot_drop_rx oneshot_channel)) 0
        ((oneshot_drop_rx oneshot_channel)\<lparr>complete := True, tx_alive := False\<rparr>))"
proof -
  have i: "inner ex_responder = Sender 0" by (simp add: ex_responder_def)
  have c: "closed (chan_of (set_chan ex_runtime 0 (oneshot_drop_rx oneshot_channel)) 0)"
    by (simp add: oneshot_drop_rx_def)
  show ?thesis using on_upgrade_hung_up[OF i c, of 7] by simp
qed

theorem echo_task_echoes_witness:
  "(\<forall>n. send_result ex_sink n = None) \<and> close_result ex_sink = None \<and>
   echo_task (Inr (WebSocketStream (7::nat) Server None)) (map Inr [Text ''hi'', Ping [], Text ''x'']) ex_sink =
     (Inr (), ex_sink\<lparr>sent := [Text ''hi''], sink_closed := True\<rparr>)"
  using echo_task_echoes[of ex_sink "WebSocketStream (7::nat) Server None" "[Text ''hi'', Ping [], Text ''x'']"]
  by (simp add: ex_sink_def)

theorem echo_task_read_error_witness:
  "list_all is_text [Text ''hi''] \<and>
   echo_task (Inr (WebSocketStream (7::nat) Server None)) (map Inr [Text ''hi''] @ Inl Io # [Inr (Text ''x'')]) ex_sink =
     (Inl unwrap_panic, ex_sink\<lparr>sent := [Text ''hi'']\<rparr>)"
  using echo_task_read_error[of "[Text ''hi'']" ex_sink "WebSocketStream (7::nat) Server None" Io "[Inr (Text ''x'')]"]
  by (simp add: ex_sink_def)

theorem echo_task_send_error_witness:
  "send_result ex_sink_full 1 = Some SendQueueFull \<and>
   echo_task (Inr (WebSocketStream (7::nat) Server None)) (map Inr ([Text ''a''] @ Text ''b'' # [Text ''c''])) ex_sink_full =
     (Inl ''failed to forward message'', ex_sink_full\<lparr>sent := [Text ''a'']\<rparr>)"
  using echo_task_send_error[of "[Text ''a'']" "Text ''b''" ex_sink_full SendQueueFull
      "WebSocketStream (7::nat) Server None" "[Text ''c'']"]
  by (simp add: ex_sink_full_def)

theorem respond_to_duplicate_key_witness:
  "find (\<lambda>(n, v). uncased_eq n ''Sec-WebSocket-Key'')
     [(''Sec-WebSocket-Key'', ''first''), (''Sec-WebSocket-Key'', ''second''), (''Sec-WebSocket-Version'', ''13'')]
     = Some (''Sec-WebSocket-Key'', ''first'') \<and>
   get_one (req_headers (request_of [(''Sec-WebSocket-Key'', ''first''), (''Sec-WebSocket-Key'', ''second''),
     (''Sec-WebSocket-Version'', ''13'')])) ''Sec-WebSocket-Version'' = Some ''13'' \<and>
   (\<exists>resp. respond_to ex_responder (request_of [(''Sec-WebSocket-Key'', ''first''),
       (''Sec-WebSocket-Key'', ''second''), (''Sec-WebSocket-Version'', ''13'')]) ex_runtime = (Inr resp, ex_runtime) \<and>
     resp_status resp = SwitchingProtocols \<and>
     get_one (resp_headers resp) ''Sec-WebSocket-Accept'' = Some (convert_key (as_bytes ''first'')))"
proof -
  have f: "find (\<lambda>(n, v). uncased_eq n ''Sec-WebSocket-Key'')
     [(''Sec-WebSocket-Key'', ''first''), (''Sec-WebSocket-Key'', ''second''), (''Sec-WebSocket-Version'', ''13'')]
     = Some (''Sec-WebSocket-Key'', ''first'')"
    by (simp add: uncased_eq_def)
  have v: "get_one (req_headers (request_of [(''Sec-WebSocket-Key'', ''first''), (''Sec-WebSocket-Key'', ''second''),
     (''Sec-WebSocket-Version'', ''13'')])) ''Sec-WebSocket-Version'' = Some ''13''"
    by (simp add: get_one_request_of uncased_eq_def ascii_lower_def)
  show ?thesis using respond_to_duplicate_key[OF f v, of ex_responder ex_runtime] f v by simp
qed

theorem echo_page_conversation_witness:
  "\<exists>s' r p1 w' p2.
     sys_run (sys_init :: nat sys) [Handle None, Respond 0 ex_request, Transmit 0, Upgrade 0 7, Poll 0] = Some s' \<and>
     received s' 0 = [r] \<and>
     page_run page_init (WsOpen # type_and_send [''hello'', ''world'']) = Some p1 \<and>
     echo_task r (map (Inr \<circ> Text) (ws_out p1)) ex_sink = (Inr (), w') \<and>
     page_run p1 (map WsFrame (sent w')) = Some p2 \<and>
     lines_text p2 = [''world'', ''hello''] \<and> status_text p2 = ''Connected :)''"
proof -
  have k: "get_one (req_headers ex_request) ''Sec-WebSocket-Key'' = Some ''dGhlIHNhbXBsZSBub25jZQ==''"
    and v: "get_one (req_headers ex_request) ''Sec-WebSocket-Version'' = Some ''13''"
    by (simp_all add: ex_request_def request_of_def get_one_def uncased_eq_def ascii_lower_def)
  have n: "next_chan (rt (sys_init :: nat sys)) = 0" by (simp add: sys_init_def)
  have w: "\<forall>n. send_result ex_sink n = None" and c: "close_result ex_sink = None"
    and e: "sent ex_sink = []"
    by (simp_all add: ex_sink_def)
  show ?thesis
    using echo_page_conversation[OF reachable.init k v n w c e, of 7 "[''hello'', ''world'']"]
    by simp
qed

theorem page_states_ok_witness:
  "page_run page_init [WsOpen, Type ''hi'', ClickSend, WsFrame (Text ''hi''), WsClosed] =
     Some (page_init\<lparr>status_text := ''Disconnected :('', ready := Closed, ws_out := [''hi'']\<rparr>) \<and>
   page_ok (page_init\<lparr>status_text := ''Disconnected :('', ready := Closed, ws_out := [''hi'']\<rparr>)"
proof -
  have r: "page_run page_init [WsOpen, Type ''hi'', ClickSend, WsFrame (Text ''hi''), WsClosed] =
     Some (page_init\<lparr>status_text := ''Disconnected :('', ready := Closed, ws_out := [''hi'']\<rparr>)"
    by (simp add: page_init_def ws_onopen_def ws_onclose_def ws_onmessage_def send_onclick_def ws_send_def)
  show ?thesis using page_states_ok[OF r] r by simp
qed

theorem send_after_close_witness:
  "(ready (page_init\<lparr>ready := Closed, text_value := ''late''\<rparr>) = Closing \<or>
    ready (page_init\<lparr>ready := Closed, text_value := ''late''\<rparr>) = Closed) \<and>
   page_step (page_init\<lparr>ready := Closed, text_value := ''late''\<rparr>) ClickSend =
     Some (page_init\<lparr>ready := Closed\<rparr>)"
  using send_after_close[of "page_init\<lparr>ready := Closed, text_value := ''late''\<rparr>"]
  by (simp add: page_init_def)

theorem upgrade_refines_contract_witness:
  "reachable (run_from_init [Handle None, Respond 0 ex_request, Transmit 0, Upgrade 0 7, Poll 0]) \<and>
   session_abs (run_from_init [Handle None, Respond 0 ex_request, Transmit 0, Upgrade 0 7, Poll 0]) 0 =
     Attempt None (Some SwitchingProtocols) (Fulfilled (WebSocketStream 7 Server None))
       (Received (Inr (WebSocketStream 7 Server None))) \<and>
   spec_reach (session_abs (run_from_init [Handle None, Respond 0 ex_request, Transmit 0, Upgrade 0 7, Poll 0]) 0)"
proof -
  have r: "reachable (run_from_init [Handle None, Respond 0 ex_request, Transmit 0, Upgrade 0 7, Poll 0])"
    by (rule run_reachable) (simp add: sys_eval ex_request_def)
  have a: "session_abs (run_from_init [Handle None, Respond 0 ex_request, Transmit 0, Upgrade 0 7, Poll 0]) 0 =
     Attempt None (Some SwitchingProtocols) (Fulfilled (WebSocketStream 7 Server None))
       (Received (Inr (WebSocketStream 7 Server None)))"
    by (simp add: sys_eval ex_request_def session_abs_def)
  show ?thesis using upgrade_refines_contract[OF r, of 0] r a by simp
qed

end
